theory Spec2Isabelle
  imports Main
begin

section \<open>Data model (shared types)\<close>

text \<open>
  Identifiers are the strings Prisma generates; a \<open>Date\<close> is its \<open>getTime()\<close> value,
  milliseconds since the epoch. Numbers that the code only ever adds, multiplies and
  compares (scores, hours, seniority) are integers.
\<close>

type_synonym ident = string
type_synonym date = int

datatype UserRole = ADMIN | MANAGER | STAFF

datatype ShiftStatus = SCHEDULED | SICK_CALL | COVERED | UNFILLED | CANCELLED

datatype SickCallStatus = SC_PENDING | SC_NOTIFYING | SC_COVERED | SC_UNFILLED | SC_CANCELLED

datatype NotificationStatus = N_PENDING | N_SENT | N_DELIVERED | N_FAILED | N_RESPONDED

datatype NotificationType = SMS | EMAIL

datatype ResponseType = ACCEPT | DECLINE | NO_RESPONSE

record User =
  u_id :: ident
  u_email :: string
  u_firstName :: string
  u_lastName :: string
  u_phone :: "string option"
  u_role :: UserRole
  u_active :: bool
  u_seniority :: "int option"
  u_hireDate :: "date option"
  u_organizationId :: ident

record Shift =
  sh_id :: ident
  sh_date :: date
  sh_startTime :: date
  sh_endTime :: date
  sh_role :: "string option"
  sh_status :: ShiftStatus
  sh_locationId :: ident
  sh_assignedToId :: "ident option"
  sh_organizationId :: ident

record SickCall =
  sc_id :: ident
  sc_staffId :: ident
  sc_shiftId :: ident
  sc_locationId :: ident
  sc_reason :: "string option"
  sc_status :: SickCallStatus
  sc_consecutiveDates :: "date list"
  sc_coveredById :: "ident option"
  sc_coveredAt :: "date option"
  sc_createdAt :: date
  sc_organizationId :: ident

record MatchedCandidate =
  userId :: ident
  user :: User
  score :: int
  rank :: int
  reasons :: "string list"
  isAvailable :: bool
  willBeOvertime :: bool
  hoursWorkedThisWeek :: int

text \<open>
  The text of an outbound message is rendered from the shift by date formatting and the
  location's name; the model keeps the data the template interpolates.
\<close>

datatype sms =
  ShiftAvailable ident date date date
| ShiftConfirmed ident date date date

record Notification =
  n_id :: ident
  n_sickCallId :: ident
  n_recipientId :: ident
  n_type :: NotificationType
  n_status :: NotificationStatus
  n_message :: sms
  n_sentAt :: "date option"
  n_externalId :: "string option"

record ShiftResponse =
  r_id :: ident
  r_sickCallId :: ident
  r_shiftId :: ident
  r_staffId :: ident
  r_responseType :: ResponseType
  r_responseText :: string
  r_createdAt :: date

datatype AuditAction = SICK_CALL_SUBMITTED | MANUAL_ASSIGNMENT | SHIFT_ACCEPTED

datatype AuditDetails =
  SubmittedDetails ident ident "string option"
| AssignedDetails ident ident "string option"

record AuditLog =
  a_id :: ident
  a_organizationId :: ident
  a_userId :: ident
  a_sickCallId :: ident
  a_action :: AuditAction
  a_details :: AuditDetails

text \<open>Events published on the organisation's real-time room, first argument the organisation.\<close>

datatype event =
  SickCallSubmitted ident SickCall
| SickCallUnfilled ident ident
| CandidatesFound ident ident "MatchedCandidate list"
| ShiftResponded ident ident ShiftResponse
| ShiftCovered ident ident ident Shift
| NotificationSent ident ident ident ident

text \<open>
  The record store: one list of rows per Prisma model, in insertion order, and the events
  emitted so far.
\<close>

record store =
  users :: "User list"
  shifts :: "Shift list"
  sickCalls :: "SickCall list"
  notifications :: "Notification list"
  shiftResponses :: "ShiftResponse list"
  auditLogs :: "AuditLog list"
  emitted :: "event list"

text \<open>A thrown \<open>Error\<close>, and an error reply of a route (status code and message).\<close>

datatype exn = Error string

datatype reply = Reply nat string

section \<open>Store queries\<close>

definition findUnique_user :: "store \<Rightarrow> ident \<Rightarrow> User option" where
  "findUnique_user st i = find (\<lambda>u. u_id u = i) (users st)"

definition findUnique_shift :: "store \<Rightarrow> ident \<Rightarrow> Shift option" where
  "findUnique_shift st i = find (\<lambda>s. sh_id s = i) (shifts st)"

definition findUnique_sickCall :: "store \<Rightarrow> ident \<Rightarrow> SickCall option" where
  "findUnique_sickCall st i = find (\<lambda>c. sc_id c = i) (sickCalls st)"

text \<open>
  \<open>Array.prototype.sort\<close> with a comparator: a stable sort, placing \<open>x\<close> before \<open>y\<close>
  when \<open>cmp x y\<close> is negative and keeping the input order when it is zero.
\<close>

fun insertBy :: "('a \<Rightarrow> 'a \<Rightarrow> int) \<Rightarrow> 'a \<Rightarrow> 'a list \<Rightarrow> 'a list" where
  "insertBy cmp x [] = [x]"
| "insertBy cmp x (y # ys) = (if cmp x y \<le> 0 then x # y # ys else y # insertBy cmp x ys)"

definition sortBy :: "('a \<Rightarrow> 'a \<Rightarrow> int) \<Rightarrow> 'a list \<Rightarrow> 'a list" where
  "sortBy cmp xs = foldr (insertBy cmp) xs []"

text \<open>
  \<open>orderBy: { seniority: 'desc' }\<close> on PostgreSQL: descending, rows without a seniority
  first; rows of equal seniority stay in table order.
\<close>

definition seniorityDesc :: "User \<Rightarrow> User \<Rightarrow> int" where
  "seniorityDesc a b =
     (case (u_seniority a, u_seniority b) of
        (None, None) \<Rightarrow> 0
      | (None, Some y) \<Rightarrow> - 1
      | (Some x, None) \<Rightarrow> 1
      | (Some x, Some y) \<Rightarrow> y - x)"

section \<open>Dates\<close>

text \<open>
  The functions of date-fns that the matching engine calls, for a server whose local
  time is UTC: a week runs from Sunday 00:00:00.000 to Saturday 23:59:59.999 (day 0 of
  the epoch was a Thursday), and \<open>differenceInHours\<close> is the number of full hours
  between two dates, rounded towards zero.
\<close>

definition startOfWeek :: "date \<Rightarrow> date" where
  "startOfWeek d =
     (let day = d div 86400000; weekday = (day + 4) mod 7
      in (day - weekday) * 86400000)"

definition endOfWeek :: "date \<Rightarrow> date" where
  "endOfWeek d = startOfWeek d + 7 * 86400000 - 1"

definition differenceInHours :: "date \<Rightarrow> date \<Rightarrow> int" where
  "differenceInHours dateLeft dateRight =
     (let diff = dateLeft - dateRight
      in if 0 \<le> diff then diff div 3600000 else - ((- diff) div 3600000))"

text \<open>Decimal rendering of a number inside a template string.\<close>

function digits :: "int \<Rightarrow> string" where
  "digits n =
     (if n < 10 then [char_of (48 + n)]
      else digits (n div 10) @ [char_of (48 + n mod 10)])"
  by pat_completeness auto
termination
  by (relation "measure nat") auto

declare digits.simps [simp del]

definition toString :: "int \<Rightarrow> string" where
  "toString i = (if i < 0 then CHR ''-'' # digits (- i) else digits i)"

section \<open>The matching engine (services/matching.ts)\<close>

record MatchingRules =
  prioritizeAvailability :: bool
  avoidOvertime :: bool
  useSeniority :: bool
  useFairness :: bool
  overtimeThreshold :: int

text \<open>\<open>Partial<MatchingRules>\<close>: every field may be absent.\<close>

record PartialRules =
  p_prioritizeAvailability :: "bool option"
  p_avoidOvertime :: "bool option"
  p_useSeniority :: "bool option"
  p_useFairness :: "bool option"
  p_overtimeThreshold :: "int option"

definition DEFAULT_RULES :: MatchingRules where
  "DEFAULT_RULES = \<lparr> prioritizeAvailability = True, avoidOvertime = True,
     useSeniority = True, useFairness = True, overtimeThreshold = 40 \<rparr>"

definition noRules :: PartialRules where
  "noRules = \<lparr> p_prioritizeAvailability = None, p_avoidOvertime = None,
     p_useSeniority = None, p_useFairness = None, p_overtimeThreshold = None \<rparr>"

text \<open>The spread \<open>{ ...DEFAULT_RULES, ...rules }\<close>.\<close>

definition mergeRules :: "MatchingRules \<Rightarrow> PartialRules \<Rightarrow> MatchingRules" where
  "mergeRules d r = \<lparr>
     prioritizeAvailability = (case p_prioritizeAvailability r of Some v \<Rightarrow> v | None \<Rightarrow> prioritizeAvailability d),
     avoidOvertime = (case p_avoidOvertime r of Some v \<Rightarrow> v | None \<Rightarrow> avoidOvertime d),
     useSeniority = (case p_useSeniority r of Some v \<Rightarrow> v | None \<Rightarrow> useSeniority d),
     useFairness = (case p_useFairness r of Some v \<Rightarrow> v | None \<Rightarrow> useFairness d),
     overtimeThreshold = (case p_overtimeThreshold r of Some v \<Rightarrow> v | None \<Rightarrow> overtimeThreshold d) \<rparr>"

text \<open>The three \<open>findMany\<close> queries of \<open>findCandidates\<close>.\<close>

definition findMany_allStaff :: "store \<Rightarrow> ident \<Rightarrow> User list" where
  "findMany_allStaff st organizationId =
     sortBy seniorityDesc
       (filter (\<lambda>u. u_organizationId u = organizationId \<and> u_role u = STAFF \<and> u_active u)
          (users st))"

definition findMany_weeklyShifts :: "store \<Rightarrow> ident \<Rightarrow> date \<Rightarrow> date \<Rightarrow> Shift list" where
  "findMany_weeklyShifts st organizationId weekStart weekEnd =
     filter (\<lambda>s. sh_organizationId s = organizationId
                \<and> weekStart \<le> sh_date s \<and> sh_date s \<le> weekEnd
                \<and> (sh_status s = SCHEDULED \<or> sh_status s = COVERED))
       (shifts st)"

definition findMany_recentPickups :: "store \<Rightarrow> ident \<Rightarrow> date \<Rightarrow> ShiftResponse list" where
  "findMany_recentPickups st organizationId thirtyDaysAgo =
     filter (\<lambda>p. r_responseType p = ACCEPT
                \<and> thirtyDaysAgo \<le> r_createdAt p
                \<and> (case findUnique_sickCall st (r_sickCallId p) of
                      Some c \<Rightarrow> sc_organizationId c = organizationId
                    | None \<Rightarrow> False))
       (shiftResponses st)"

text \<open>
  The body of the loop over \<open>allStaff\<close>: \<open>None\<close> is the \<open>continue\<close> that skips an
  unavailable staff member, \<open>Some\<close> the candidate pushed.
\<close>

definition evaluateStaff ::
  "MatchingRules \<Rightarrow> Shift \<Rightarrow> ident \<Rightarrow> Shift list \<Rightarrow> ShiftResponse list \<Rightarrow> User
     \<Rightarrow> MatchedCandidate option" where
  "evaluateStaff matchingRules shift shiftId weeklyShifts recentPickups staff =
     (let isWorking = list_ex (\<lambda>s. sh_assignedToId s = Some (u_id staff)
                                   \<and> sh_date s = sh_date shift
                                   \<and> sh_id s \<noteq> shiftId) weeklyShifts
      in if isWorking \<and> prioritizeAvailability matchingRules then None
         else
           let hoursThisWeek =
                 foldl (\<lambda>total s. total + differenceInHours (sh_endTime s) (sh_startTime s)) 0
                   (filter (\<lambda>s. sh_assignedToId s = Some (u_id staff)) weeklyShifts);
               shiftHours = differenceInHours (sh_endTime shift) (sh_startTime shift);
               totalHoursWithShift = hoursThisWeek + shiftHours;
               willBeOvertime = (totalHoursWithShift > overtimeThreshold matchingRules);
               recentPickupCount =
                 length (filter (\<lambda>p. r_staffId p = u_id staff) recentPickups);
               score = 1000;
               reasons = [];
               (score, reasons) =
                 (if \<not> isWorking then (score + 500, reasons @ [''Available''])
                  else (score - 1000, reasons @ [''Already working'']));
               (score, reasons) =
                 (if avoidOvertime matchingRules then
                    (if \<not> willBeOvertime then (score + 300, reasons @ [''No overtime''])
                     else (score - 200,
                           reasons @ [''Would be OT ('' @ toString totalHoursWithShift @ ''hrs)'']))
                  else (score, reasons));
               (score, reasons) =
                 (case u_seniority staff of
                    Some seniority \<Rightarrow>
                      if useSeniority matchingRules \<and> seniority \<noteq> 0 then
                        (let seniorityBonus = seniority * 10
                         in (score + seniorityBonus,
                             reasons @ [''Seniority: '' @ toString seniority]))
                      else (score, reasons)
                  | None \<Rightarrow> (score, reasons));
               (score, reasons) =
                 (if useFairness matchingRules then
                    (let fairnessBonus = max 0 (100 - (int recentPickupCount * 20))
                     in (score + fairnessBonus,
                         reasons @ [''Recent pickups: '' @ toString (int recentPickupCount)]))
                  else (score, reasons))
           in Some \<lparr> userId = u_id staff,
                     user = staff \<lparr> u_seniority :=
                              (case u_seniority staff of
                                 Some seniority \<Rightarrow> if seniority \<noteq> 0 then Some seniority else None
                               | None \<Rightarrow> None) \<rparr>,
                     score = score,
                     rank = 0,
                     reasons = reasons,
                     isAvailable = (\<not> isWorking),
                     willBeOvertime = willBeOvertime,
                     hoursWorkedThisWeek = hoursThisWeek \<rparr>)"

fun candidatesLoop ::
  "MatchingRules \<Rightarrow> Shift \<Rightarrow> ident \<Rightarrow> Shift list \<Rightarrow> ShiftResponse list \<Rightarrow> User list
     \<Rightarrow> MatchedCandidate list" where
  "candidatesLoop matchingRules shift shiftId weeklyShifts recentPickups [] = []"
| "candidatesLoop matchingRules shift shiftId weeklyShifts recentPickups (staff # rest) =
     (case evaluateStaff matchingRules shift shiftId weeklyShifts recentPickups staff of
        None \<Rightarrow> candidatesLoop matchingRules shift shiftId weeklyShifts recentPickups rest
      | Some candidate \<Rightarrow>
          candidate # candidatesLoop matchingRules shift shiftId weeklyShifts recentPickups rest)"

text \<open>\<open>candidates.forEach((candidate, index) => candidate.rank = index + 1)\<close>.\<close>

fun assignRanks :: "nat \<Rightarrow> MatchedCandidate list \<Rightarrow> MatchedCandidate list" where
  "assignRanks index [] = []"
| "assignRanks index (candidate # rest) =
     candidate \<lparr> rank := int index + 1 \<rparr> # assignRanks (Suc index) rest"

text \<open>The candidates of the loop, before sorting, for a shift that was found.\<close>

definition loopCandidates ::
  "store \<Rightarrow> date \<Rightarrow> Shift \<Rightarrow> ident \<Rightarrow> ident \<Rightarrow> MatchingRules \<Rightarrow> MatchedCandidate list" where
  "loopCandidates st now shift shiftId organizationId matchingRules =
     (let allStaff = findMany_allStaff st organizationId;
          weekStart = startOfWeek (sh_date shift);
          weekEnd = endOfWeek (sh_date shift);
          weeklyShifts = findMany_weeklyShifts st organizationId weekStart weekEnd;
          thirtyDaysAgo = now - 30 * 86400000;
          recentPickups = findMany_recentPickups st organizationId thirtyDaysAgo
      in candidatesLoop matchingRules shift shiftId weeklyShifts recentPickups allStaff)"

definition findCandidates ::
  "store \<Rightarrow> date \<Rightarrow> ident \<Rightarrow> ident \<Rightarrow> ident \<Rightarrow> PartialRules \<Rightarrow> exn + MatchedCandidate list" where
  "findCandidates st now shiftId organizationId locationId rules =
     (let matchingRules = mergeRules DEFAULT_RULES rules
      in case findUnique_shift st shiftId of
           None \<Rightarrow> Inl (Error ''Shift not found'')
         | Some shift \<Rightarrow>
             (let candidates = loopCandidates st now shift shiftId organizationId matchingRules;
                  candidates = sortBy (\<lambda>a b. score b - score a) candidates;
                  candidates = assignRanks 0 candidates
              in Inr candidates))"

definition getTopCandidates ::
  "store \<Rightarrow> date \<Rightarrow> ident \<Rightarrow> ident \<Rightarrow> ident \<Rightarrow> nat \<Rightarrow> PartialRules
     \<Rightarrow> exn + MatchedCandidate list" where
  "getTopCandidates st now shiftId organizationId locationId count rules =
     (case findCandidates st now shiftId organizationId locationId rules of
        Inl e \<Rightarrow> Inl e
      | Inr allCandidates \<Rightarrow>
          (let availableCandidates = filter isAvailable allCandidates
           in Inr (take count availableCandidates)))"

section \<open>The environment of a request\<close>

text \<open>
  What a handler reads from outside the store: the clock (\<open>new Date()\<close>, \<open>Date.now()\<close>),
  the identifier Prisma generates for the next row of a table (a parameter: the schema's
  generator is not part of the sources; \<open>freshId env n\<close> is the identifier given to the row
  created when the table holds \<open>n\<close> rows), and the SMS transport: \<open>None\<close> when Twilio is
  not configured, otherwise the outcome of \<open>messages.create\<close> for a body and a phone
  number, \<open>Some sid\<close> or \<open>None\<close> when it throws.
\<close>

record env =
  clock :: date
  freshId :: "nat \<Rightarrow> ident"
  twilio :: "(sms \<Rightarrow> string \<Rightarrow> string option) option"

text \<open>\<open>req.user\<close>, decoded from the bearer token.\<close>

record reqUser =
  ru_id :: ident
  ru_email :: string
  ru_role :: UserRole
  ru_organizationId :: ident

section \<open>The notification service (services/notifications.ts)\<close>

text \<open>
  The \<open>catch\<close> block of \<open>sendSMS\<close>: every pending notification of the sick call and the
  recipient becomes failed.
\<close>

definition failPending :: "store \<Rightarrow> ident \<Rightarrow> ident \<Rightarrow> store" where
  "failPending st sickCallId recipientId =
     st \<lparr> notifications :=
       map (\<lambda>n. if n_sickCallId n = sickCallId \<and> n_recipientId n = recipientId
                     \<and> n_status n = N_PENDING
                 then n \<lparr> n_status := N_FAILED \<rparr> else n)
         (notifications st) \<rparr>"

text \<open>
  First half of the \<open>try\<close> block: the recipient is looked up and the notification record
  is created. \<open>None\<close> is the throw for a recipient that is missing or has no phone number.
\<close>

definition sendSMS_persist ::
  "store \<Rightarrow> env \<Rightarrow> ident \<Rightarrow> ident \<Rightarrow> sms \<Rightarrow> (User \<times> string \<times> Notification \<times> store) option" where
  "sendSMS_persist st e recipientId sickCallId message =
     (case findUnique_user st recipientId of
        None \<Rightarrow> None
      | Some recipient \<Rightarrow>
          (case u_phone recipient of
             None \<Rightarrow> None
           | Some phone \<Rightarrow>
               if phone = [] then None
               else
                 let notification = \<lparr> n_id = freshId e (length (notifications st)),
                       n_sickCallId = sickCallId, n_recipientId = recipientId,
                       n_type = SMS, n_status = N_PENDING, n_message = message,
                       n_sentAt = None, n_externalId = None \<rparr>
                 in Some (recipient, phone, notification,
                          st \<lparr> notifications := notifications st @ [notification] \<rparr>)))"

text \<open>\<open>prisma.notification.update\<close> to \<open>SENT\<close>, followed by the real-time event.\<close>

definition markSent :: "store \<Rightarrow> env \<Rightarrow> User \<Rightarrow> Notification \<Rightarrow> string \<Rightarrow> store" where
  "markSent st e recipient notification externalId =
     st \<lparr> notifications :=
            map (\<lambda>n. if n_id n = n_id notification
                      then n \<lparr> n_status := N_SENT, n_sentAt := Some (clock e),
                               n_externalId := Some externalId \<rparr>
                      else n)
              (notifications st),
          emitted := emitted st @
            [NotificationSent (u_organizationId recipient) (n_id notification)
               (n_recipientId notification) (n_sickCallId notification)] \<rparr>"

text \<open>
  Second half: the transport is attempted on the store that already holds the pending
  record; a throw of the transport reaches the \<open>catch\<close> block.
\<close>

definition sendSMS_transport ::
  "store \<Rightarrow> env \<Rightarrow> User \<Rightarrow> string \<Rightarrow> Notification \<Rightarrow> ident option \<times> store" where
  "sendSMS_transport st e recipient phone notification =
     (case twilio e of
        Some create \<Rightarrow>
          (case create (n_message notification) phone of
             Some sid \<Rightarrow> (Some (n_id notification), markSent st e recipient notification sid)
           | None \<Rightarrow>
               (None, failPending st (n_sickCallId notification) (n_recipientId notification)))
      | None \<Rightarrow>
          (Some (n_id notification),
           markSent st e recipient notification (''mock-'' @ toString (clock e))))"

definition sendSMS :: "store \<Rightarrow> env \<Rightarrow> ident \<Rightarrow> ident \<Rightarrow> sms \<Rightarrow> ident option \<times> store" where
  "sendSMS st e recipientId sickCallId message =
     (case sendSMS_persist st e recipientId sickCallId message of
        None \<Rightarrow> (None, failPending st sickCallId recipientId)
      | Some (recipient, phone, notification, st1) \<Rightarrow>
          sendSMS_transport st1 e recipient phone notification)"

text \<open>
  \<open>parseResponse\<close>. A string is modelled by its code units below 256; \<open>trim\<close> removes the
  white space among them, and \<open>toUpperCase\<close> is modelled on the ASCII letters (no other
  character is mapped to a string that occurs in either word list).
\<close>

definition isWhiteSpace :: "char \<Rightarrow> bool" where
  "isWhiteSpace c = (of_char c \<in> {9, 10, 11, 12, 13, 32, 160 :: nat})"

definition trim :: "string \<Rightarrow> string" where
  "trim s = rev (dropWhile isWhiteSpace (rev (dropWhile isWhiteSpace s)))"

definition toUpperCase :: "string \<Rightarrow> string" where
  "toUpperCase s =
     map (\<lambda>c. if 97 \<le> (of_char c :: nat) \<and> (of_char c :: nat) \<le> 122
               then char_of ((of_char c :: nat) - 32) else c) s"

definition parseResponse :: "string \<Rightarrow> ResponseType option" where
  "parseResponse responseText =
     (let normalized = toUpperCase (trim responseText)
      in if normalized \<in> set [''YES'', ''Y'', ''ACCEPT'', ''1'', ''OK''] then Some ACCEPT
         else if normalized \<in> set [''NO'', ''N'', ''DECLINE'', ''2'', ''NOPE''] then Some DECLINE
         else None)"

section \<open>The coverage workflow (routes/sickcalls.ts)\<close>

text \<open>\<open>prisma.sickCall.update\<close> and \<open>prisma.shift.update\<close> of the row with a given id.\<close>

definition update_sickCall :: "store \<Rightarrow> ident \<Rightarrow> (SickCall \<Rightarrow> SickCall) \<Rightarrow> store" where
  "update_sickCall st i f =
     st \<lparr> sickCalls := map (\<lambda>c. if sc_id c = i then f c else c) (sickCalls st) \<rparr>"

definition update_shift :: "store \<Rightarrow> ident \<Rightarrow> (Shift \<Rightarrow> Shift) \<Rightarrow> store" where
  "update_shift st i f =
     st \<lparr> shifts := map (\<lambda>s. if sh_id s = i then f s else s) (shifts st) \<rparr>"

text \<open>
  \<open>POST /submit\<close>, up to the reply. The coverage process it schedules with
  \<open>setImmediate\<close> runs afterwards and is the separate step \<open>startShiftCoverageProcess\<close>.
\<close>

definition submit ::
  "store \<Rightarrow> env \<Rightarrow> reqUser \<Rightarrow> ident \<Rightarrow> ident \<Rightarrow> string option \<Rightarrow> date list option
     \<Rightarrow> (reply + SickCall) \<times> store" where
  "submit st e u shiftId locationId reason consecutiveDates =
     (let staffId = ru_id u; organizationId = ru_organizationId u
      in case findUnique_shift st shiftId of
           None \<Rightarrow> (Inl (Reply 404 ''Shift not found''), st)
         | Some shift \<Rightarrow>
             if sh_assignedToId shift \<noteq> Some staffId then
               (Inl (Reply 403 ''This shift is not assigned to you''), st)
             else if sh_status shift = SICK_CALL then
               (Inl (Reply 400 ''Sick call already submitted for this shift''), st)
             else
               let sickCall = \<lparr> sc_id = freshId e (length (sickCalls st)),
                     sc_staffId = staffId, sc_shiftId = shiftId, sc_locationId = locationId,
                     sc_reason = reason, sc_status = SC_PENDING,
                     sc_consecutiveDates =
                       (case consecutiveDates of Some ds \<Rightarrow> ds | None \<Rightarrow> []),
                     sc_coveredById = None, sc_coveredAt = None,
                     sc_createdAt = clock e, sc_organizationId = organizationId \<rparr>;
                   st = st \<lparr> sickCalls := sickCalls st @ [sickCall] \<rparr>;
                   st = update_shift st shiftId (\<lambda>s. s \<lparr> sh_status := SICK_CALL \<rparr>);
                   st = st \<lparr> auditLogs := auditLogs st @
                          [\<lparr> a_id = freshId e (length (auditLogs st)),
                             a_organizationId = organizationId, a_userId = staffId,
                             a_sickCallId = sc_id sickCall, a_action = SICK_CALL_SUBMITTED,
                             a_details = SubmittedDetails shiftId locationId reason \<rparr>] \<rparr>;
                   st = st \<lparr> emitted := emitted st @
                          [SickCallSubmitted organizationId sickCall] \<rparr>
               in (Inr sickCall, st))"

text \<open>
  \<open>startShiftCoverageProcess\<close>: the result is the error it throws, if any (the caller
  only logs it), and the store it leaves.
\<close>

definition startShiftCoverageProcess :: "store \<Rightarrow> env \<Rightarrow> ident \<Rightarrow> exn option \<times> store" where
  "startShiftCoverageProcess st e sickCallId =
     (case findUnique_sickCall st sickCallId of
        None \<Rightarrow> (None, st)
      | Some sickCall \<Rightarrow>
          (let included = findUnique_shift st (sc_shiftId sickCall);
               st = update_sickCall st sickCallId (\<lambda>c. c \<lparr> sc_status := SC_NOTIFYING \<rparr>)
           in case getTopCandidates st (clock e) (sc_shiftId sickCall)
                     (sc_organizationId sickCall) (sc_locationId sickCall) 5 noRules of
                Inl err \<Rightarrow> (Some err, st)
              | Inr [] \<Rightarrow>
                  (let st = update_sickCall st sickCallId (\<lambda>c. c \<lparr> sc_status := SC_UNFILLED \<rparr>);
                       st = st \<lparr> emitted := emitted st @
                              [SickCallUnfilled (sc_organizationId sickCall) sickCallId] \<rparr>
                   in (None, st))
              | Inr (first # others) \<Rightarrow>
                  (case included of
                     None \<Rightarrow> (Some (Error ''TypeError''), st)
                   | Some shift \<Rightarrow>
                       (let (sent, st) = sendSMS st e (userId first) sickCallId
                              (ShiftAvailable (sh_locationId shift) (sh_date shift)
                                 (sh_startTime shift) (sh_endTime shift));
                            st = st \<lparr> emitted := emitted st @
                                   [CandidatesFound (sc_organizationId sickCall) sickCallId
                                      (first # others)] \<rparr>
                        in (None, st)))))"

text \<open>
  \<open>assignShift\<close>. \<open>prisma.shift.update\<close> throws when the shift row does not exist; the
  writes made before a throw stay. An absent or empty \<open>managerId\<close> is falsy.
\<close>

definition assignShift ::
  "store \<Rightarrow> env \<Rightarrow> ident \<Rightarrow> ident \<Rightarrow> ident option \<Rightarrow> string option \<Rightarrow> exn option \<times> store" where
  "assignShift st e sickCallId staffId managerId reason =
     (case findUnique_sickCall st sickCallId of
        None \<Rightarrow> (Some (Error ''Sick call not found''), st)
      | Some sickCall \<Rightarrow>
          (let included = findUnique_shift st (sc_shiftId sickCall);
               manager = (case managerId of
                            Some m \<Rightarrow> if m = [] then None else Some m
                          | None \<Rightarrow> None);
               st = update_sickCall st sickCallId
                      (\<lambda>c. c \<lparr> sc_status := SC_COVERED, sc_coveredById := Some staffId,
                                sc_coveredAt := Some (clock e) \<rparr>)
           in case included of
                None \<Rightarrow> (Some (Error ''Record to update not found''), st)
              | Some shift \<Rightarrow>
                  (let st = update_shift st (sc_shiftId sickCall)
                              (\<lambda>s. s \<lparr> sh_status := COVERED, sh_assignedToId := Some staffId \<rparr>);
                       st = st \<lparr> auditLogs := auditLogs st @
                              [\<lparr> a_id = freshId e (length (auditLogs st)),
                                 a_organizationId = sc_organizationId sickCall,
                                 a_userId = (case manager of Some m \<Rightarrow> m | None \<Rightarrow> staffId),
                                 a_sickCallId = sickCallId,
                                 a_action = (case manager of
                                               Some m \<Rightarrow> MANUAL_ASSIGNMENT
                                             | None \<Rightarrow> SHIFT_ACCEPTED),
                                 a_details =
                                   AssignedDetails staffId (sc_shiftId sickCall) reason \<rparr>] \<rparr>;
                       st = (case findUnique_user st staffId of
                               None \<Rightarrow> st
                             | Some staff \<Rightarrow>
                                 snd (sendSMS st e staffId sickCallId
                                        (ShiftConfirmed (sh_locationId shift) (sh_date shift)
                                           (sh_startTime shift) (sh_endTime shift))));
                       st = st \<lparr> emitted := emitted st @
                              [ShiftCovered (sc_organizationId sickCall) sickCallId staffId
                                 shift] \<rparr>
                   in (None, st))))"

text \<open>\<open>POST /:id/respond\<close>: the reply is the recorded response and the message.\<close>

definition respond ::
  "store \<Rightarrow> env \<Rightarrow> reqUser \<Rightarrow> ident \<Rightarrow> string \<Rightarrow> (reply + ShiftResponse \<times> string) \<times> store" where
  "respond st e u sickCallId responseText =
     (let staffId = ru_id u
      in case findUnique_sickCall st sickCallId of
           None \<Rightarrow> (Inl (Reply 404 ''Sick call not found''), st)
         | Some sickCall \<Rightarrow>
             if sc_status sickCall = SC_COVERED then
               (Inl (Reply 400 ''Shift already covered''), st)
             else
               (case parseResponse responseText of
                  None \<Rightarrow> (Inl (Reply 400 ''Invalid response. Reply YES or NO.''), st)
                | Some responseType \<Rightarrow>
                    (let response = \<lparr> r_id = freshId e (length (shiftResponses st)),
                           r_sickCallId = sickCallId, r_shiftId = sc_shiftId sickCall,
                           r_staffId = staffId, r_responseType = responseType,
                           r_responseText = responseText, r_createdAt = clock e \<rparr>;
                         st = st \<lparr> shiftResponses := shiftResponses st @ [response] \<rparr>;
                         (thrown, st) =
                           (if responseType = ACCEPT \<and> sc_status sickCall \<noteq> SC_COVERED
                            then assignShift st e sickCallId staffId None None
                            else (None, st))
                     in case thrown of
                          Some err \<Rightarrow> (Inl (Reply 500 ''Failed to record response''), st)
                        | None \<Rightarrow>
                            (Inr (response,
                                  if responseType = ACCEPT then ''Shift assigned to you!''
                                  else ''Response recorded''),
                             st \<lparr> emitted := emitted st @
                               [ShiftResponded (sc_organizationId sickCall) sickCallId
                                  response] \<rparr>))))"

text \<open>\<open>POST /:id/assign\<close>, behind \<open>authorize('MANAGER', 'ADMIN')\<close>.\<close>

definition assign ::
  "store \<Rightarrow> env \<Rightarrow> reqUser \<Rightarrow> ident \<Rightarrow> ident \<Rightarrow> string option \<Rightarrow> (reply + string) \<times> store" where
  "assign st e u sickCallId staffId reason =
     (if ru_role u \<noteq> MANAGER \<and> ru_role u \<noteq> ADMIN then
        (Inl (Reply 403 ''Insufficient permissions''), st)
      else
        (case assignShift st e sickCallId staffId (Some (ru_id u)) reason of
           (Some err, st) \<Rightarrow> (Inl (Reply 500 ''Failed to assign shift''), st)
         | (None, st) \<Rightarrow> (Inr ''Shift assigned successfully'', st)))"

section \<open>The ranking rules in the words of the specification\<close>


text \<open>
  The conflict the ranking tests. A staff member is working another shift with the date
  of the target shift: some other scheduled or covered shift of the ranking organisation
  whose date field equals the date field of the target shift is assigned to them. A
  shift on the same calendar day with another value in its date field, or a shift of
  another organisation, is not such a conflict.
\<close>

definition spec_workingAnotherShift :: "store \<Rightarrow> ident \<Rightarrow> Shift \<Rightarrow> ident \<Rightarrow> bool" where
  "spec_workingAnotherShift st organizationId shift staffId =
     list_ex (\<lambda>s. sh_organizationId s = organizationId
                  \<and> (sh_status s = SCHEDULED \<or> sh_status s = COVERED)
                  \<and> sh_assignedToId s = Some staffId
                  \<and> sh_date s = sh_date shift
                  \<and> sh_id s \<noteq> sh_id shift)
       (shifts st)"

text \<open>
  The conflict in the words of the claims: some other scheduled or covered shift on the
  calendar day of the target shift is assigned to the staff member.
\<close>

definition spec_workingOnTargetDate :: "store \<Rightarrow> Shift \<Rightarrow> ident \<Rightarrow> bool" where
  "spec_workingOnTargetDate st shift staffId =
     list_ex (\<lambda>s. (sh_status s = SCHEDULED \<or> sh_status s = COVERED)
                  \<and> sh_assignedToId s = Some staffId
                  \<and> sh_date s div 86400000 = sh_date shift div 86400000
                  \<and> sh_id s \<noteq> sh_id shift)
       (shifts st)"



text \<open>
  The candidate the loop of \<open>findCandidates\<close> computes for one retrieved staff member, with
  the queries of that invocation.
\<close>

definition staffCandidate ::
  "store \<Rightarrow> date \<Rightarrow> Shift \<Rightarrow> ident \<Rightarrow> ident \<Rightarrow> MatchingRules \<Rightarrow> User \<Rightarrow> MatchedCandidate option" where
  "staffCandidate st now shift shiftId organizationId matchingRules staff =
     evaluateStaff matchingRules shift shiftId
       (findMany_weeklyShifts st organizationId (startOfWeek (sh_date shift))
          (endOfWeek (sh_date shift)))
       (findMany_recentPickups st organizationId (now - 30 * 86400000))
       staff"

section \<open>A worked scenario\<close>

text \<open>
  The scenario of the specification: shift \<open>S\<close> on 2024-01-10, 07:00 to 15:00, assigned
  to staff \<open>A\<close>; staff \<open>B\<close> is free that day, has seniority 8 and one accepted pickup in
  the last 30 days; staff \<open>C\<close> works another shift on that date. \<open>X\<close> is a staff member
  of another organisation. The clock stands at 2024-01-09, 12:00; Twilio is not
  configured.
\<close>

definition ex_user :: "ident \<Rightarrow> UserRole \<Rightarrow> int option \<Rightarrow> ident \<Rightarrow> User" where
  "ex_user i r s org = \<lparr> u_id = i, u_email = i @ ''@demo.com'', u_firstName = i,
     u_lastName = ''Demo'', u_phone = Some ''+1-604-555-0201'', u_role = r, u_active = True,
     u_seniority = s, u_hireDate = None, u_organizationId = org \<rparr>"

definition ex_shift :: "ident \<Rightarrow> date \<Rightarrow> date \<Rightarrow> ShiftStatus \<Rightarrow> ident \<Rightarrow> ident \<Rightarrow> Shift" where
  "ex_shift i start end status staff org = \<lparr> sh_id = i, sh_date = 1704844800000,
     sh_startTime = start, sh_endTime = end, sh_role = None, sh_status = status,
     sh_locationId = ''L1'', sh_assignedToId = Some staff, sh_organizationId = org \<rparr>"

definition ex_store :: store where
  "ex_store = \<lparr>
     users = [ex_user ''A'' STAFF (Some 10) ''org1'', ex_user ''B'' STAFF (Some 8) ''org1'',
              ex_user ''C'' STAFF (Some 6) ''org1'', ex_user ''M'' MANAGER None ''org1'',
              ex_user ''X'' STAFF (Some 1) ''org2''],
     shifts = [ex_shift ''S'' 1704870000000 1704898800000 SCHEDULED ''A'' ''org1'',
               ex_shift ''S2'' 1704898800000 1704927600000 SCHEDULED ''C'' ''org1''],
     sickCalls = [\<lparr> sc_id = ''SC0'', sc_staffId = ''C'', sc_shiftId = ''S0'',
                    sc_locationId = ''L1'', sc_reason = None, sc_status = SC_COVERED,
                    sc_consecutiveDates = [], sc_coveredById = Some ''B'',
                    sc_coveredAt = Some 1704067200000, sc_createdAt = 1704060000000,
                    sc_organizationId = ''org1'' \<rparr>],
     notifications = [],
     shiftResponses = [\<lparr> r_id = ''R0'', r_sickCallId = ''SC0'', r_shiftId = ''S0'',
                         r_staffId = ''B'', r_responseType = ACCEPT, r_responseText = ''yes'',
                         r_createdAt = 1704067200000 \<rparr>],
     auditLogs = [],
     emitted = [] \<rparr>"

definition ex_env :: env where
  "ex_env = \<lparr> clock = 1704801600000, freshId = (\<lambda>n. ''id'' @ toString (int n)),
               twilio = None \<rparr>"

definition ex_req :: "ident \<Rightarrow> UserRole \<Rightarrow> ident \<Rightarrow> reqUser" where
  "ex_req i r org = \<lparr> ru_id = i, ru_email = i @ ''@demo.com'', ru_role = r,
                      ru_organizationId = org \<rparr>"

text \<open>\<open>A\<close> calls in sick for \<open>S\<close>; the coverage process runs; \<open>B\<close> replies.\<close>

definition ex_submitted :: store where
  "ex_submitted = snd (submit ex_store ex_env (ex_req ''A'' STAFF ''org1'') ''S'' ''L1'' None None)"

definition ex_notified :: store where
  "ex_notified = snd (startShiftCoverageProcess ex_submitted ex_env ''id1'')"

definition ex_covered :: store where
  "ex_covered = snd (respond ex_notified ex_env (ex_req ''B'' STAFF ''org1'') ''id1'' ''YES'')"

text \<open>The ranking for \<open>S\<close> after the sick call: the reporter \<open>A\<close> first, then \<open>B\<close>.\<close>

definition ex_candidate :: "ident \<Rightarrow> int \<Rightarrow> int \<Rightarrow> int \<Rightarrow> int \<Rightarrow> MatchedCandidate" where
  "ex_candidate i seniority points position pickups = \<lparr> userId = i,
     user = ex_user i STAFF (Some seniority) ''org1'', score = points, rank = position,
     reasons = [''Available'', ''No overtime'', ''Seniority: '' @ toString seniority,
                ''Recent pickups: '' @ toString pickups],
     isAvailable = True, willBeOvertime = False, hoursWorkedThisWeek = 0 \<rparr>"

definition ex_ranked :: "MatchedCandidate list" where
  "ex_ranked = [ex_candidate ''A'' 10 2000 1 0, ex_candidate ''B'' 8 1960 2 1]"

text \<open>The sick call of \<open>A\<close> for \<open>S\<close>, in a given state of coverage.\<close>

definition ex_sickCall :: "SickCallStatus \<Rightarrow> ident option \<Rightarrow> date option \<Rightarrow> SickCall" where
  "ex_sickCall status coveredBy coveredAt = \<lparr> sc_id = ''id1'', sc_staffId = ''A'',
     sc_shiftId = ''S'', sc_locationId = ''L1'', sc_reason = None, sc_status = status,
     sc_consecutiveDates = [], sc_coveredById = coveredBy, sc_coveredAt = coveredAt,
     sc_createdAt = 1704801600000, sc_organizationId = ''org1'' \<rparr>"

text \<open>The same environment with Twilio configured and its transport throwing.\<close>

definition ex_env_failing :: env where
  "ex_env_failing = ex_env \<lparr> twilio := Some (\<lambda>body to. None) \<rparr>"

text \<open>
  The scenario after the sick call of \<open>A\<close>, with one more staff member: \<open>D\<close>, of
  seniority 20, works shift \<open>S3\<close> from 15:00 to 23:00 on the day of \<open>S\<close>; the date
  field of \<open>S3\<close> is one millisecond after that of \<open>S\<close>.
\<close>

definition ex_sameday :: store where
  "ex_sameday = ex_submitted \<lparr>
     users := users ex_submitted @ [ex_user ''D'' STAFF (Some 20) ''org1''],
     shifts := shifts ex_submitted @
       [(ex_shift ''S3'' 1704898800000 1704927600000 SCHEDULED ''D'' ''org1'')
          \<lparr> sh_date := 1704844800001 \<rparr>] \<rparr>"

section \<open>Sorting and ranking\<close>

lemma insertBy_insort_key:
  assumes "\<And>x y. (cmp x y \<le> 0) = (f x \<le> f y)"
  shows "insertBy cmp x ys = insort_key f x ys"
  by (induction ys) (simp_all add: assms)

lemma sortBy_sort_key:
  assumes "\<And>x y. (cmp x y \<le> 0) = (f x \<le> f y)"
  shows "sortBy cmp xs = sort_key f xs"
  unfolding sortBy_def
  by (induction xs) (simp_all add: insertBy_insort_key [OF assms])

lemma sortBy_score: "sortBy (\<lambda>a b. score b - score a) xs = sort_key (\<lambda>c. - score c) xs"
  by (rule sortBy_sort_key) simp

lemma set_insertBy: "set (insertBy cmp x ys) = insert x (set ys)"
  by (induction ys) auto

lemma set_sortBy: "set (sortBy cmp xs) = set xs"
  unfolding sortBy_def by (induction xs) (simp_all add: set_insertBy)

lemma sorted_insertBy:
  assumes total: "\<And>x y. cmp x y \<le> 0 \<or> cmp y x \<le> 0"
    and trans: "\<And>x y z. cmp x y \<le> 0 \<Longrightarrow> cmp y z \<le> 0 \<Longrightarrow> cmp x z \<le> 0"
    and "sorted_wrt (\<lambda>a b. cmp a b \<le> 0) ys"
  shows "sorted_wrt (\<lambda>a b. cmp a b \<le> 0) (insertBy cmp x ys)"
  using assms(3)
proof (induction ys)
  case Nil
  then show ?case by simp
next
  case (Cons y ys)
  show ?case
  proof (cases "cmp x y \<le> 0")
    case True
    have "\<forall>z \<in> set (y # ys). cmp x z \<le> 0"
    proof
      fix z assume "z \<in> set (y # ys)"
      then consider "z = y" | "z \<in> set ys" by auto
      then show "cmp x z \<le> 0"
      proof cases
        case 1 with True show ?thesis by simp
      next
        case 2
        with Cons.prems have "cmp y z \<le> 0" by simp
        with True trans show ?thesis by blast
      qed
    qed
    with Cons.prems True show ?thesis by simp
  next
    case False
    with total have "cmp y x \<le> 0" by blast
    moreover have "\<forall>z \<in> set ys. cmp y z \<le> 0" using Cons.prems by simp
    moreover have "sorted_wrt (\<lambda>a b. cmp a b \<le> 0) (insertBy cmp x ys)"
      using Cons by simp
    ultimately show ?thesis using False by (simp add: set_insertBy)
  qed
qed

lemma sorted_sortBy:
  assumes total: "\<And>x y. cmp x y \<le> 0 \<or> cmp y x \<le> 0"
    and trans: "\<And>x y z. cmp x y \<le> 0 \<Longrightarrow> cmp y z \<le> 0 \<Longrightarrow> cmp x z \<le> 0"
  shows "sorted_wrt (\<lambda>a b. cmp a b \<le> 0) (sortBy cmp xs)"
  unfolding sortBy_def
proof (induction xs)
  case Nil
  then show ?case by simp
next
  case (Cons x xs)
  then show ?case using sorted_insertBy [OF total trans] by simp
qed

lemma seniorityDesc_total: "seniorityDesc x y \<le> 0 \<or> seniorityDesc y x \<le> 0"
  by (auto simp: seniorityDesc_def split: option.splits)

lemma seniorityDesc_trans:
  "seniorityDesc x y \<le> 0 \<Longrightarrow> seniorityDesc y z \<le> 0 \<Longrightarrow> seniorityDesc x z \<le> 0"
  by (auto simp: seniorityDesc_def split: option.splits)

lemma allStaff_sorted:
  "sorted_wrt (\<lambda>a b. seniorityDesc a b \<le> 0) (findMany_allStaff st org)"
  unfolding findMany_allStaff_def
  by (rule sorted_sortBy [OF seniorityDesc_total seniorityDesc_trans])

lemma set_allStaff:
  "set (findMany_allStaff st org) =
     {u \<in> set (users st). u_organizationId u = org \<and> u_role u = STAFF \<and> u_active u}"
  by (auto simp: findMany_allStaff_def set_sortBy)

lemma length_assignRanks: "length (assignRanks i xs) = length xs"
  by (induction xs arbitrary: i) simp_all

lemma map_score_assignRanks: "map score (assignRanks i xs) = map score xs"
  by (induction xs arbitrary: i) simp_all

lemma map_rank_assignRanks:
  "map rank (assignRanks i xs) = map (\<lambda>k. int k + 1) [i..<i + length xs]"
  by (induction xs arbitrary: i) (simp_all add: upt_rec)

lemma set_assignRanks:
  "c \<in> set (assignRanks i xs) \<Longrightarrow> \<exists>c0 \<in> set xs. \<exists>k. c = c0 \<lparr> rank := k \<rparr>"
  by (induction xs arbitrary: i) auto


lemma filter_score_assignRanks:
  "map userId (filter (\<lambda>c. score c = k) (assignRanks i xs)) =
     map userId (filter (\<lambda>c. score c = k) xs)"
  by (induction xs arbitrary: i) simp_all

section \<open>Dates\<close>

lemma week_bracket: "startOfWeek d \<le> d \<and> d \<le> endOfWeek d"
proof -
  define day where "day = d div 86400000"
  define weekday where "weekday = (day + 4) mod 7"
  have w: "0 \<le> weekday" "weekday < 7" by (simp_all add: weekday_def)
  have d1: "day * 86400000 \<le> d" unfolding day_def by simp
  have d2: "d < (day + 1) * 86400000" unfolding day_def
  proof -
    have "d = d div 86400000 * 86400000 + d mod 86400000" by simp
    moreover have "d mod 86400000 < 86400000" by simp
    ultimately show "d < (d div 86400000 + 1) * 86400000" by (simp add: algebra_simps)
  qed
  have s: "startOfWeek d = (day - weekday) * 86400000"
    by (simp add: startOfWeek_def Let_def day_def weekday_def)
  show ?thesis unfolding endOfWeek_def s using w d1 d2 by (simp add: algebra_simps)
qed

section \<open>One staff member in the loop\<close>


lemma list_ex_filter: "list_ex P (filter Q xs) = list_ex (\<lambda>x. Q x \<and> P x) xs"
  by (induction xs) auto

lemma evaluateStaff_fields:
  assumes "evaluateStaff r shift sid ws ps staff = Some c"
  shows "userId c = u_id staff"
    and "rank c = 0"
    and "isAvailable c = (\<not> list_ex (\<lambda>s. sh_assignedToId s = Some (u_id staff)
                                   \<and> sh_date s = sh_date shift \<and> sh_id s \<noteq> sid) ws)"
  using assms
  by (auto simp: evaluateStaff_def Let_def split: if_splits option.splits prod.splits)

lemma evaluateStaff_None:
  "evaluateStaff r shift sid ws ps staff = None \<longleftrightarrow>
     (list_ex (\<lambda>s. sh_assignedToId s = Some (u_id staff)
                  \<and> sh_date s = sh_date shift \<and> sh_id s \<noteq> sid) ws
      \<and> prioritizeAvailability r)"
  by (auto simp: evaluateStaff_def Let_def split: if_splits option.splits prod.splits)


lemma candidatesLoop_map_filter:
  "candidatesLoop r sh sid ws ps staff = List.map_filter (evaluateStaff r sh sid ws ps) staff"
  by (induction staff) (simp_all add: List.map_filter_simps split: option.splits)

lemma loopCandidates_map_filter:
  "loopCandidates st now shift sid org r =
     List.map_filter (staffCandidate st now shift sid org r) (findMany_allStaff st org)"
  unfolding loopCandidates_def Let_def candidatesLoop_map_filter
  by (rule arg_cong2 [where f = List.map_filter]) (auto simp: staffCandidate_def)

lemma findUnique_shift_id: "findUnique_shift st sid = Some shift \<Longrightarrow> sh_id shift = sid"
  by (auto simp: findUnique_shift_def find_Some_iff)

lemma isWorking_spec:
  assumes "findUnique_shift st sid = Some shift"
  shows "list_ex (\<lambda>s. sh_assignedToId s = Some staffId \<and> sh_date s = sh_date shift
                      \<and> sh_id s \<noteq> sid)
           (findMany_weeklyShifts st org (startOfWeek (sh_date shift)) (endOfWeek (sh_date shift)))
         = spec_workingAnotherShift st org shift staffId"
proof -
  have "sh_id shift = sid" using assms by (rule findUnique_shift_id)
  then show ?thesis
    using week_bracket [of "sh_date shift"]
    unfolding findMany_weeklyShifts_def spec_workingAnotherShift_def list_ex_filter list_ex_iff
    by auto
qed

text \<open>A conflict in the sense of the ranking is a shift on the same calendar day.\<close>

lemma same_date_field_same_day:
  "spec_workingAnotherShift st org shift staffId \<Longrightarrow> spec_workingOnTargetDate st shift staffId"
  by (auto simp: spec_workingAnotherShift_def spec_workingOnTargetDate_def list_ex_iff)



lemma staffCandidate_fields:
  assumes "findUnique_shift st sid = Some shift"
    and "staffCandidate st now shift sid org r staff = Some c"
  shows "userId c = u_id staff"
    and "rank c = 0"
    and "isAvailable c = (\<not> spec_workingAnotherShift st org shift (u_id staff))"
  using evaluateStaff_fields [OF assms(2) [unfolded staffCandidate_def]]
  by (simp_all add: isWorking_spec [OF assms(1)])

lemma staffCandidate_None:
  assumes "findUnique_shift st sid = Some shift"
  shows "staffCandidate st now shift sid org r staff = None \<longleftrightarrow>
     (spec_workingAnotherShift st org shift (u_id staff) \<and> prioritizeAvailability r)"
  unfolding staffCandidate_def evaluateStaff_None isWorking_spec [OF assms] ..


lemma set_map_filter_iff: "y \<in> set (List.map_filter f xs) \<longleftrightarrow> (\<exists>x \<in> set xs. f x = Some y)"
  by (induction xs) (auto split: option.splits)

lemma filter_score_map_filter:
  assumes "\<And>u c. g u = Some c \<Longrightarrow> userId c = u_id u"
  shows "map userId (filter (\<lambda>c. score c = k) (List.map_filter g xs)) =
         map u_id (filter (\<lambda>u. map_option score (g u) = Some k) xs)"
  by (induction xs) (auto simp: assms split: option.splits)

text \<open>The shape of a successful ranking.\<close>

lemma findCandidates_Inr:
  assumes "findCandidates st now sid org loc rules = Inr out"
  obtains shift where "findUnique_shift st sid = Some shift"
    and "out = assignRanks 0 (sort_key (\<lambda>c. - score c)
           (List.map_filter (staffCandidate st now shift sid org (mergeRules DEFAULT_RULES rules))
              (findMany_allStaff st org)))"
  using assms
  by (auto simp: findCandidates_def Let_def sortBy_score loopCandidates_map_filter
           split: option.splits)

lemma findCandidates_member:
  assumes "findCandidates st now sid org loc rules = Inr out" and "c \<in> set out"
  obtains shift staff c0 k where "findUnique_shift st sid = Some shift"
    and "staff \<in> set (findMany_allStaff st org)"
    and "staffCandidate st now shift sid org (mergeRules DEFAULT_RULES rules) staff = Some c0"
    and "c = c0 \<lparr> rank := k \<rparr>"
proof -
  from assms(1) obtain shift where sh: "findUnique_shift st sid = Some shift"
    and out: "out = assignRanks 0 (sort_key (\<lambda>c. - score c)
           (List.map_filter (staffCandidate st now shift sid org (mergeRules DEFAULT_RULES rules))
              (findMany_allStaff st org)))"
    by (rule findCandidates_Inr)
  from assms(2) out obtain c0 k where
    c0: "c0 \<in> set (List.map_filter
            (staffCandidate st now shift sid org (mergeRules DEFAULT_RULES rules))
            (findMany_allStaff st org))"
    and c: "c = c0 \<lparr> rank := k \<rparr>"
    using set_assignRanks by fastforce
  from c0 obtain staff where "staff \<in> set (findMany_allStaff st org)"
    and "staffCandidate st now shift sid org (mergeRules DEFAULT_RULES rules) staff = Some c0"
    by (auto simp: set_map_filter_iff)
  with sh c show ?thesis using that by blast
qed

section \<open>Claims about the ranking\<close>




text \<open>
  C2. The list returned by \<open>findCandidates\<close> is sorted by descending score; the ranks are
  1 to N in list order, so rank 1 has the greatest score; candidates of equal score
  keep the order in which their staff rows were retrieved; and the staff rows are
  retrieved by descending seniority.
\<close>

theorem C2_sorted_ranked_stable:
  assumes "findCandidates st now shiftId organizationId locationId rules = Inr out"
  shows "sorted_wrt (\<lambda>a b. score b \<le> score a) out
       \<and> map rank out = map int [1..<Suc (length out)]
       \<and> (\<forall>c \<in> set out. rank c = 1 \<longrightarrow> (\<forall>d \<in> set out. score d \<le> score c))
       \<and> (\<exists>shift. findUnique_shift st shiftId = Some shift
            \<and> (\<forall>k. map userId (filter (\<lambda>c. score c = k) out) =
                     map u_id (filter (\<lambda>u. map_option score
                         (staffCandidate st now shift shiftId organizationId
                            (mergeRules DEFAULT_RULES rules) u) = Some k)
                       (findMany_allStaff st organizationId))))
       \<and> sorted_wrt (\<lambda>a b. seniorityDesc a b \<le> 0) (findMany_allStaff st organizationId)"
proof -
  from assms obtain shift where sh: "findUnique_shift st shiftId = Some shift"
    and out: "out = assignRanks 0 (sort_key (\<lambda>c. - score c)
           (List.map_filter (staffCandidate st now shift shiftId organizationId
                               (mergeRules DEFAULT_RULES rules))
              (findMany_allStaff st organizationId)))"
    by (rule findCandidates_Inr)
  define L where "L = List.map_filter (staffCandidate st now shift shiftId organizationId
                               (mergeRules DEFAULT_RULES rules))
              (findMany_allStaff st organizationId)"
  define S where "S = sort_key (\<lambda>c. - score c) L"
  have out': "out = assignRanks 0 S" using out by (simp add: S_def L_def)
  have len: "length out = length S" by (simp add: out' length_assignRanks)
  have "sorted (map (\<lambda>c. - score c) S)" unfolding S_def by (rule sorted_sort_key)
  then have "sorted_wrt (\<lambda>x y. y \<le> x) (map score S)"
    by (simp add: sorted_map sorted_wrt_map)
  then have "sorted_wrt (\<lambda>x y. y \<le> x) (map score out)"
    by (simp add: out' map_score_assignRanks)
  then have sorted: "sorted_wrt (\<lambda>a b. score b \<le> score a) out"
    by (simp add: sorted_wrt_map)
  have ranks0: "map rank out = map (\<lambda>k. int k + 1) [0..<length out]"
    using map_rank_assignRanks [of 0 S] by (simp add: out' length_assignRanks)
  also have "\<dots> = map int (map Suc [0..<length out])" by simp
  also have "\<dots> = map int [1..<Suc (length out)]" by (simp only: map_Suc_upt One_nat_def)
  finally have ranks: "map rank out = map int [1..<Suc (length out)]" .
  have top: "\<forall>c \<in> set out. rank c = 1 \<longrightarrow> (\<forall>d \<in> set out. score d \<le> score c)"
  proof (intro ballI impI)
    fix c d assume c: "c \<in> set out" and r: "rank c = 1" and d: "d \<in> set out"
    from c obtain i where i: "i < length out" "out ! i = c" by (auto simp: in_set_conv_nth)
    from d obtain j where j: "j < length out" "out ! j = d" by (auto simp: in_set_conv_nth)
    have "rank (out ! i) = map rank out ! i" using i by simp
    also have "\<dots> = int i + 1" using i by (simp add: ranks0)
    finally have "i = 0" using r i by simp
    show "score d \<le> score c"
    proof (cases "j = 0")
      case True
      with \<open>i = 0\<close> i j show ?thesis by simp
    next
      case False
      then have "i < j" using \<open>i = 0\<close> by simp
      from sorted_wrt_nth_less [OF sorted this j(1)] i j show ?thesis by simp
    qed
  qed
  have stable: "map userId (filter (\<lambda>c. score c = k) out) =
          map u_id (filter (\<lambda>u. map_option score
              (staffCandidate st now shift shiftId organizationId
                 (mergeRules DEFAULT_RULES rules) u) = Some k)
            (findMany_allStaff st organizationId))" for k
  proof -
    have "map userId (filter (\<lambda>c. score c = k) out) = map userId (filter (\<lambda>c. score c = k) S)"
      by (simp add: out' filter_score_assignRanks)
    also have "filter (\<lambda>c. score c = k) S = filter (\<lambda>c. - score c = - k) S" by simp
    also have "\<dots> = filter (\<lambda>c. - score c = - k) L"
      unfolding S_def by (rule sort_key_stable)
    also have "\<dots> = filter (\<lambda>c. score c = k) L" by simp
    finally show ?thesis
      unfolding L_def
      by (simp add: filter_score_map_filter [OF staffCandidate_fields(1) [OF sh]])
  qed
  from sorted ranks top sh stable allStaff_sorted show ?thesis by blast
qed

theorem C2_sorted_ranked_stable_witness:
  "findCandidates ex_submitted 1704801600000 ''S'' ''org1'' ''L1'' noRules = Inr ex_ranked
   \<and> sorted_wrt (\<lambda>a b. score b \<le> score a) ex_ranked
   \<and> map rank ex_ranked = map int [1..<Suc (length ex_ranked)]
   \<and> rank (ex_candidate ''A'' 10 2000 1 0) = 1
   \<and> score (ex_candidate ''B'' 8 1960 2 1) \<le> score (ex_candidate ''A'' 10 2000 1 0)
   \<and> sorted_wrt (\<lambda>a b. seniorityDesc a b \<le> 0) (findMany_allStaff ex_submitted ''org1'')"
proof -
  have h: "findCandidates ex_submitted 1704801600000 ''S'' ''org1'' ''L1'' noRules
             = Inr ex_ranked"
    by code_simp
  have a: "ex_candidate ''A'' 10 2000 1 0 \<in> set ex_ranked" by code_simp
  have b: "ex_candidate ''B'' 8 1960 2 1 \<in> set ex_ranked" by code_simp
  have r: "rank (ex_candidate ''A'' 10 2000 1 0) = 1" by code_simp
  from C2_sorted_ranked_stable [OF h] h a b r show ?thesis by blast
qed

text \<open>
  C7, as the code has it. \<open>findCandidates\<close> fails with \<open>Shift not found\<close> when no shift has
  the given id. When a shift with that id exists it succeeds, whatever organisation the
  shift belongs to, and ranks active staff of the organisation it was given. It only
  queries the store: the function has no store to return.
\<close>

theorem C7_not_found_only_for_unknown_shift:
  "(findUnique_shift st shiftId = None \<longrightarrow>
      findCandidates st now shiftId organizationId locationId rules
        = Inl (Error ''Shift not found''))
   \<and> (\<forall>shift. findUnique_shift st shiftId = Some shift \<longrightarrow>
        (\<exists>out. findCandidates st now shiftId organizationId locationId rules = Inr out
           \<and> userId ` set out \<subseteq>
               u_id ` {u \<in> set (users st). u_organizationId u = organizationId
                         \<and> u_role u = STAFF \<and> u_active u}))"
proof (intro conjI impI allI)
  assume "findUnique_shift st shiftId = None"
  then show "findCandidates st now shiftId organizationId locationId rules
               = Inl (Error ''Shift not found'')"
    by (simp add: findCandidates_def)
next
  fix shift assume sh: "findUnique_shift st shiftId = Some shift"
  then obtain out where out: "findCandidates st now shiftId organizationId locationId rules
                                = Inr out"
    by (simp add: findCandidates_def Let_def)
  have "userId ` set out \<subseteq>
          u_id ` {u \<in> set (users st). u_organizationId u = organizationId
                    \<and> u_role u = STAFF \<and> u_active u}"
  proof
    fix i assume "i \<in> userId ` set out"
    then obtain c where c: "c \<in> set out" "i = userId c" by auto
    from out c(1) obtain shift' staff c0 k where
      sh': "findUnique_shift st shiftId = Some shift'"
      and staff: "staff \<in> set (findMany_allStaff st organizationId)"
      and c0: "staffCandidate st now shift' shiftId organizationId
                 (mergeRules DEFAULT_RULES rules) staff = Some c0"
      and ck: "c = c0 \<lparr> rank := k \<rparr>"
      by (rule findCandidates_member)
    have "userId c = u_id staff" using staffCandidate_fields(1) [OF sh' c0] ck by simp
    with staff c(2) show "i \<in> u_id ` {u \<in> set (users st). u_organizationId u = organizationId
                    \<and> u_role u = STAFF \<and> u_active u}"
      by (auto simp: set_allStaff)
  qed
  with out show "\<exists>out. findCandidates st now shiftId organizationId locationId rules = Inr out
           \<and> userId ` set out \<subseteq>
               u_id ` {u \<in> set (users st). u_organizationId u = organizationId
                         \<and> u_role u = STAFF \<and> u_active u}"
    by blast
qed

theorem C7_not_found_only_for_unknown_shift_witness:
  "findUnique_shift ex_store ''nope'' = None
   \<and> findCandidates ex_store 1704801600000 ''nope'' ''org1'' ''L1'' noRules
       = Inl (Error ''Shift not found'')
   \<and> findUnique_shift ex_store ''S''
       = Some (ex_shift ''S'' 1704870000000 1704898800000 SCHEDULED ''A'' ''org1'')
   \<and> (\<exists>out. findCandidates ex_store 1704801600000 ''S'' ''org2'' ''L1'' noRules = Inr out
         \<and> userId ` set out \<subseteq>
             u_id ` {u \<in> set (users ex_store). u_organizationId u = ''org2''
                       \<and> u_role u = STAFF \<and> u_active u})"
proof -
  have h1: "findUnique_shift ex_store ''nope'' = None" by code_simp
  have h2: "findUnique_shift ex_store ''S''
       = Some (ex_shift ''S'' 1704870000000 1704898800000 SCHEDULED ''A'' ''org1'')"
    by code_simp
  from C7_not_found_only_for_unknown_shift
         [of ex_store "''nope''" 1704801600000 "''org1''" "''L1''" noRules] h1
  have a: "findCandidates ex_store 1704801600000 ''nope'' ''org1'' ''L1'' noRules
       = Inl (Error ''Shift not found'')"
    by blast
  from C7_not_found_only_for_unknown_shift
         [of ex_store "''S''" 1704801600000 "''org2''" "''L1''" noRules] h2
  have b: "\<exists>out. findCandidates ex_store 1704801600000 ''S'' ''org2'' ''L1'' noRules = Inr out
         \<and> userId ` set out \<subseteq>
             u_id ` {u \<in> set (users ex_store). u_organizationId u = ''org2''
                       \<and> u_role u = STAFF \<and> u_active u}"
    by blast
  from h1 a h2 b show ?thesis by blast
qed

text \<open>
  The claim C7 as stated fails: shift \<open>S\<close> belongs to organisation \<open>org1\<close>, and ranking it
  for organisation \<open>org2\<close> succeeds, with the staff member of \<open>org2\<close> ranked first.
\<close>

theorem C7_other_organisation_counterexample:
  "map_option sh_organizationId (findUnique_shift ex_store ''S'') = Some ''org1''
   \<and> map_sum (\<lambda>e. e) (map (\<lambda>c. (userId c, score c, rank c)))
       (findCandidates ex_store 1704801600000 ''S'' ''org2'' ''L1'' noRules)
     = Inr [(''X'', 1910, 1)]"
  by code_simp

section \<open>The notification service and the store\<close>

lemma find_update:
  assumes "\<And>x. key (f x) = key x"
  shows "find (\<lambda>x. key x = i) (map (\<lambda>x. if key x = i then f x else x) xs)
         = map_option f (find (\<lambda>x. key x = i) xs)"
  by (induction xs) (simp_all add: assms)

lemma failPending_fields:
  "users (failPending st sc r) = users st"
  "shifts (failPending st sc r) = shifts st"
  "sickCalls (failPending st sc r) = sickCalls st"
  "shiftResponses (failPending st sc r) = shiftResponses st"
  "auditLogs (failPending st sc r) = auditLogs st"
  "emitted (failPending st sc r) = emitted st"
  "map n_recipientId (notifications (failPending st sc r)) = map n_recipientId (notifications st)"
  by (simp_all add: failPending_def)

lemma markSent_fields:
  "users (markSent st e r n x) = users st"
  "shifts (markSent st e r n x) = shifts st"
  "sickCalls (markSent st e r n x) = sickCalls st"
  "shiftResponses (markSent st e r n x) = shiftResponses st"
  "auditLogs (markSent st e r n x) = auditLogs st"
  "map n_recipientId (notifications (markSent st e r n x)) = map n_recipientId (notifications st)"
  by (simp_all add: markSent_def)

lemma sendSMS_persist_Some:
  assumes "sendSMS_persist st e rid sc m = Some (recipient, phone, n, st1)"
  shows "users st1 = users st" "shifts st1 = shifts st" "sickCalls st1 = sickCalls st"
    "shiftResponses st1 = shiftResponses st" "auditLogs st1 = auditLogs st"
    "emitted st1 = emitted st"
    "notifications st1 = notifications st @ [n]"
    "n_recipientId n = rid" "n_sickCallId n = sc" "n_status n = N_PENDING"
    "n_message n = m" "n_sentAt n = None" "n_externalId n = None"
    "n_id n = freshId e (length (notifications st))"
    "findUnique_user st rid = Some recipient" "u_phone recipient = Some phone" "phone \<noteq> []"
  using assms
  by (auto simp: sendSMS_persist_def Let_def split: option.splits if_splits)

lemma sendSMS_transport_fields:
  "users (snd (sendSMS_transport st e r p n)) = users st"
  "shifts (snd (sendSMS_transport st e r p n)) = shifts st"
  "sickCalls (snd (sendSMS_transport st e r p n)) = sickCalls st"
  "shiftResponses (snd (sendSMS_transport st e r p n)) = shiftResponses st"
  "auditLogs (snd (sendSMS_transport st e r p n)) = auditLogs st"
  "map n_recipientId (notifications (snd (sendSMS_transport st e r p n)))
     = map n_recipientId (notifications st)"
  by (simp_all add: sendSMS_transport_def failPending_fields markSent_fields
        split: option.splits)

lemma sendSMS_fields:
  "users (snd (sendSMS st e rid sc m)) = users st"
  "shifts (snd (sendSMS st e rid sc m)) = shifts st"
  "sickCalls (snd (sendSMS st e rid sc m)) = sickCalls st"
  "shiftResponses (snd (sendSMS st e rid sc m)) = shiftResponses st"
  "auditLogs (snd (sendSMS st e rid sc m)) = auditLogs st"
  by (auto simp: sendSMS_def failPending_fields sendSMS_transport_fields
        sendSMS_persist_Some split: option.splits)

lemma sendSMS_recipients:
  "\<exists>rs. map n_recipientId (notifications (snd (sendSMS st e rid sc m)))
          = map n_recipientId (notifications st) @ rs \<and> set rs \<subseteq> {rid}"
proof (cases "sendSMS_persist st e rid sc m")
  case None
  then show ?thesis by (simp add: sendSMS_def failPending_fields)
next
  case (Some t)
  then obtain recipient phone n st1 where t: "t = (recipient, phone, n, st1)"
    by (cases t) auto
  from Some t have "map n_recipientId (notifications (snd (sendSMS st e rid sc m)))
          = map n_recipientId (notifications st) @ [rid]"
    by (simp add: sendSMS_def sendSMS_transport_fields sendSMS_persist_Some(7,8) [OF Some [unfolded t]])
  then show ?thesis by simp
qed


section \<open>The workflow steps\<close>

lemma update_sickCall_fields:
  "users (update_sickCall st i f) = users st"
  "shifts (update_sickCall st i f) = shifts st"
  "notifications (update_sickCall st i f) = notifications st"
  "shiftResponses (update_sickCall st i f) = shiftResponses st"
  "auditLogs (update_sickCall st i f) = auditLogs st"
  "emitted (update_sickCall st i f) = emitted st"
  "sickCalls (update_sickCall st i f) = map (\<lambda>c. if sc_id c = i then f c else c) (sickCalls st)"
  by (simp_all add: update_sickCall_def)

lemma update_shift_fields:
  "users (update_shift st i f) = users st"
  "sickCalls (update_shift st i f) = sickCalls st"
  "notifications (update_shift st i f) = notifications st"
  "shiftResponses (update_shift st i f) = shiftResponses st"
  "auditLogs (update_shift st i f) = auditLogs st"
  "emitted (update_shift st i f) = emitted st"
  "shifts (update_shift st i f) = map (\<lambda>s. if sh_id s = i then f s else s) (shifts st)"
  by (simp_all add: update_shift_def)

text \<open>What a successful \<open>assignShift\<close> leaves in the store.\<close>

lemma assignShift_ok:
  assumes sc: "findUnique_sickCall st i = Some sickCall"
    and sh: "findUnique_shift st (sc_shiftId sickCall) = Some shift"
  shows "\<exists>st'. assignShift st e i staffId managerId reason = (None, st')
     \<and> users st' = users st
     \<and> shiftResponses st' = shiftResponses st
     \<and> sickCalls st' =
         map (\<lambda>c. if sc_id c = i
                   then c \<lparr> sc_status := SC_COVERED, sc_coveredById := Some staffId,
                            sc_coveredAt := Some (clock e) \<rparr>
                   else c) (sickCalls st)
     \<and> shifts st' =
         map (\<lambda>s. if sh_id s = sc_shiftId sickCall
                   then s \<lparr> sh_status := COVERED, sh_assignedToId := Some staffId \<rparr>
                   else s) (shifts st)
     \<and> (\<exists>a. auditLogs st' = auditLogs st @ [a]
            \<and> a_organizationId a = sc_organizationId sickCall
            \<and> a_sickCallId a = i
            \<and> a_details a = AssignedDetails staffId (sc_shiftId sickCall) reason
            \<and> a_userId a = (case managerId of
                              Some m \<Rightarrow> if m = [] then staffId else m
                            | None \<Rightarrow> staffId)
            \<and> a_action a = (case managerId of
                              Some m \<Rightarrow> if m = [] then SHIFT_ACCEPTED else MANUAL_ASSIGNMENT
                            | None \<Rightarrow> SHIFT_ACCEPTED))"
  using sc sh
  by (auto simp: assignShift_def Let_def update_sickCall_fields update_shift_fields
        sendSMS_fields split: option.splits)


text \<open>An accepted offer on a sick call that is not covered, whoever the caller is.\<close>

lemma respond_accept:
  assumes sc: "findUnique_sickCall st i = Some sickCall"
    and open_call: "sc_status sickCall \<noteq> SC_COVERED"
    and yes: "parseResponse responseText = Some ACCEPT"
    and sh: "findUnique_shift st (sc_shiftId sickCall) = Some shift"
  shows "\<exists>response st'. respond st e u i responseText
            = (Inr (response, ''Shift assigned to you!''), st')
     \<and> response = \<lparr> r_id = freshId e (length (shiftResponses st)), r_sickCallId = i,
                      r_shiftId = sc_shiftId sickCall, r_staffId = ru_id u,
                      r_responseType = ACCEPT, r_responseText = responseText,
                      r_createdAt = clock e \<rparr>
     \<and> users st' = users st
     \<and> shiftResponses st' = shiftResponses st @ [response]
     \<and> sickCalls st' =
         map (\<lambda>c. if sc_id c = i
                   then c \<lparr> sc_status := SC_COVERED, sc_coveredById := Some (ru_id u),
                            sc_coveredAt := Some (clock e) \<rparr>
                   else c) (sickCalls st)
     \<and> shifts st' =
         map (\<lambda>s. if sh_id s = sc_shiftId sickCall
                   then s \<lparr> sh_status := COVERED, sh_assignedToId := Some (ru_id u) \<rparr>
                   else s) (shifts st)
     \<and> (\<exists>a. auditLogs st' = auditLogs st @ [a]
            \<and> a_organizationId a = sc_organizationId sickCall
            \<and> a_sickCallId a = i
            \<and> a_userId a = ru_id u
            \<and> a_action a = SHIFT_ACCEPTED)"
proof -
  define response where "response = \<lparr> r_id = freshId e (length (shiftResponses st)),
      r_sickCallId = i, r_shiftId = sc_shiftId sickCall, r_staffId = ru_id u,
      r_responseType = ACCEPT, r_responseText = responseText, r_createdAt = clock e \<rparr>"
  define st1 where "st1 = st \<lparr> shiftResponses := shiftResponses st @ [response] \<rparr>"
  have sc1: "findUnique_sickCall st1 i = Some sickCall"
    using sc by (simp add: findUnique_sickCall_def st1_def)
  have sh1: "findUnique_shift st1 (sc_shiftId sickCall) = Some shift"
    using sh by (simp add: findUnique_shift_def st1_def)
  from assignShift_ok [OF sc1 sh1, of e "ru_id u" None None]
  obtain st2 a where as: "assignShift st1 e i (ru_id u) None None = (None, st2)"
    and f: "users st2 = users st1" "shiftResponses st2 = shiftResponses st1"
      "sickCalls st2 =
         map (\<lambda>c. if sc_id c = i
                   then c \<lparr> sc_status := SC_COVERED, sc_coveredById := Some (ru_id u),
                            sc_coveredAt := Some (clock e) \<rparr>
                   else c) (sickCalls st1)"
      "shifts st2 =
         map (\<lambda>s. if sh_id s = sc_shiftId sickCall
                   then s \<lparr> sh_status := COVERED, sh_assignedToId := Some (ru_id u) \<rparr>
                   else s) (shifts st1)"
    and a: "auditLogs st2 = auditLogs st1 @ [a]" "a_organizationId a = sc_organizationId sickCall"
      "a_sickCallId a = i" "a_userId a = ru_id u" "a_action a = SHIFT_ACCEPTED"
    by auto
  have r: "respond st e u i responseText
             = (Inr (response, ''Shift assigned to you!''),
                st2 \<lparr> emitted := emitted st2 @
                  [ShiftResponded (sc_organizationId sickCall) i response] \<rparr>)"
    using sc open_call yes as
    by (simp add: respond_def Let_def response_def [symmetric] st1_def [symmetric])
  show ?thesis
    unfolding r response_def [symmetric]
    using f a by (auto simp: st1_def)
qed

lemma submit_Inr:
  assumes "submit st e u sid loc reason dates = (Inr sickCall, st')"
  shows "\<exists>shift. findUnique_shift st sid = Some shift
           \<and> sh_assignedToId shift = Some (ru_id u) \<and> sh_status shift \<noteq> SICK_CALL"
    and "users st' = users st"
    and "shiftResponses st' = shiftResponses st"
    and "notifications st' = notifications st"
    and "sickCalls st' = sickCalls st @ [sickCall]"
    and "shifts st' = map (\<lambda>s. if sh_id s = sid then s \<lparr> sh_status := SICK_CALL \<rparr> else s)
                        (shifts st)"
    and "sc_staffId sickCall = ru_id u" and "sc_shiftId sickCall = sid"
    and "sc_organizationId sickCall = ru_organizationId u"
    and "sc_locationId sickCall = loc" and "sc_status sickCall = SC_PENDING"
  using assms
  by (auto simp: submit_def Let_def update_shift_def split: option.splits if_splits)


lemma findUnique_sickCall_updated:
  assumes "sickCalls st' = map (\<lambda>c. if sc_id c = i then f c else c) (sickCalls st)"
    and "\<And>c. sc_id (f c) = sc_id c"
  shows "findUnique_sickCall st' i = map_option f (findUnique_sickCall st i)"
  unfolding findUnique_sickCall_def assms(1)
  by (rule find_update [where key = sc_id]) (rule assms(2))

lemma findUnique_shift_updated:
  assumes "shifts st' = map (\<lambda>s. if sh_id s = i then f s else s) (shifts st)"
    and "\<And>s. sh_id (f s) = sh_id s"
  shows "findUnique_shift st' i = map_option f (findUnique_shift st i)"
  unfolding findUnique_shift_def assms(1)
  by (rule find_update [where key = sh_id]) (rule assms(2))

section \<open>Claims about the workflow\<close>

text \<open>
  C4. A reply that parses as an accept word, on a sick call that is not covered and whose
  shift row exists (the foreign key of the sick call), is recorded as \<open>ACCEPT\<close>; the
  sick call becomes covered by the responding staff member; the shift is assigned to
  them with status covered; and exactly one audit entry is added, of kind
  \<open>SHIFT_ACCEPTED\<close>. The manager's route on the same store adds one entry of kind
  \<open>MANUAL_ASSIGNMENT\<close> instead.
\<close>

theorem C4_accept_covers_shift:
  assumes "findUnique_sickCall st sickCallId = Some sickCall"
    and "sc_status sickCall \<noteq> SC_COVERED"
    and "parseResponse responseText = Some ACCEPT"
    and "findUnique_shift st (sc_shiftId sickCall) = Some shift"
  shows "(\<exists>response st' sickCall' shift' entry.
            respond st e u sickCallId responseText
              = (Inr (response, ''Shift assigned to you!''), st')
          \<and> r_responseType response = ACCEPT \<and> r_staffId response = ru_id u
          \<and> shiftResponses st' = shiftResponses st @ [response]
          \<and> findUnique_sickCall st' sickCallId = Some sickCall'
          \<and> sc_status sickCall' = SC_COVERED \<and> sc_coveredById sickCall' = Some (ru_id u)
          \<and> findUnique_shift st' (sc_shiftId sickCall) = Some shift'
          \<and> sh_status shift' = COVERED \<and> sh_assignedToId shift' = Some (ru_id u)
          \<and> auditLogs st' = auditLogs st @ [entry]
          \<and> a_action entry = SHIFT_ACCEPTED \<and> a_sickCallId entry = sickCallId
          \<and> a_userId entry = ru_id u)
       \<and> (\<forall>manager staffId reason.
             (ru_role manager = MANAGER \<or> ru_role manager = ADMIN) \<and> ru_id manager \<noteq> []
             \<longrightarrow> (\<exists>st' entry. assign st e manager sickCallId staffId reason
                                = (Inr ''Shift assigned successfully'', st')
                    \<and> auditLogs st' = auditLogs st @ [entry]
                    \<and> a_action entry = MANUAL_ASSIGNMENT
                    \<and> a_userId entry = ru_id manager))"
proof (intro conjI allI impI)
  from respond_accept [OF assms, of e u]
  obtain response st' entry where
    r: "respond st e u sickCallId responseText = (Inr (response, ''Shift assigned to you!''), st')"
    and resp: "r_responseType response = ACCEPT" "r_staffId response = ru_id u"
      "shiftResponses st' = shiftResponses st @ [response]"
    and scs: "sickCalls st' =
         map (\<lambda>c. if sc_id c = sickCallId
                   then c \<lparr> sc_status := SC_COVERED, sc_coveredById := Some (ru_id u),
                            sc_coveredAt := Some (clock e) \<rparr>
                   else c) (sickCalls st)"
    and shs: "shifts st' =
         map (\<lambda>s. if sh_id s = sc_shiftId sickCall
                   then s \<lparr> sh_status := COVERED, sh_assignedToId := Some (ru_id u) \<rparr>
                   else s) (shifts st)"
    and au: "auditLogs st' = auditLogs st @ [entry]" "a_action entry = SHIFT_ACCEPTED"
      "a_sickCallId entry = sickCallId" "a_userId entry = ru_id u"
    by auto
  have "findUnique_sickCall st' sickCallId =
          Some (sickCall \<lparr> sc_status := SC_COVERED, sc_coveredById := Some (ru_id u),
                           sc_coveredAt := Some (clock e) \<rparr>)"
    using findUnique_sickCall_updated [OF scs] assms(1) by simp
  moreover have "findUnique_shift st' (sc_shiftId sickCall) =
          Some (shift \<lparr> sh_status := COVERED, sh_assignedToId := Some (ru_id u) \<rparr>)"
    using findUnique_shift_updated [OF shs] assms(4) by simp
  ultimately show "\<exists>response st' sickCall' shift' entry.
            respond st e u sickCallId responseText
              = (Inr (response, ''Shift assigned to you!''), st')
          \<and> r_responseType response = ACCEPT \<and> r_staffId response = ru_id u
          \<and> shiftResponses st' = shiftResponses st @ [response]
          \<and> findUnique_sickCall st' sickCallId = Some sickCall'
          \<and> sc_status sickCall' = SC_COVERED \<and> sc_coveredById sickCall' = Some (ru_id u)
          \<and> findUnique_shift st' (sc_shiftId sickCall) = Some shift'
          \<and> sh_status shift' = COVERED \<and> sh_assignedToId shift' = Some (ru_id u)
          \<and> auditLogs st' = auditLogs st @ [entry]
          \<and> a_action entry = SHIFT_ACCEPTED \<and> a_sickCallId entry = sickCallId
          \<and> a_userId entry = ru_id u"
    using r resp au by simp
next
  fix manager :: reqUser and staffId reason
  assume m: "(ru_role manager = MANAGER \<or> ru_role manager = ADMIN) \<and> ru_id manager \<noteq> []"
  from assignShift_ok [OF assms(1,4), of e staffId "Some (ru_id manager)" reason] m
  obtain st' entry where "assignShift st e sickCallId staffId (Some (ru_id manager)) reason
                            = (None, st')"
    and "auditLogs st' = auditLogs st @ [entry]" "a_action entry = MANUAL_ASSIGNMENT"
      "a_userId entry = ru_id manager"
    by auto
  with m show "\<exists>st' entry. assign st e manager sickCallId staffId reason
                                = (Inr ''Shift assigned successfully'', st')
                    \<and> auditLogs st' = auditLogs st @ [entry]
                    \<and> a_action entry = MANUAL_ASSIGNMENT
                    \<and> a_userId entry = ru_id manager"
    by (auto simp: assign_def)
qed

theorem C4_accept_covers_shift_witness:
  "findUnique_sickCall ex_notified ''id1'' = Some (ex_sickCall SC_NOTIFYING None None)
   \<and> sc_status (ex_sickCall SC_NOTIFYING None None) \<noteq> SC_COVERED
   \<and> parseResponse ''YES'' = Some ACCEPT
   \<and> findUnique_shift ex_notified (sc_shiftId (ex_sickCall SC_NOTIFYING None None))
       = Some (ex_shift ''S'' 1704870000000 1704898800000 SICK_CALL ''A'' ''org1'')
   \<and> (\<exists>response st' sickCall' shift' entry.
          respond ex_notified ex_env (ex_req ''B'' STAFF ''org1'') ''id1'' ''YES''
            = (Inr (response, ''Shift assigned to you!''), st')
        \<and> r_responseType response = ACCEPT \<and> r_staffId response = ''B''
        \<and> shiftResponses st' = shiftResponses ex_notified @ [response]
        \<and> findUnique_sickCall st' ''id1'' = Some sickCall'
        \<and> sc_status sickCall' = SC_COVERED \<and> sc_coveredById sickCall' = Some ''B''
        \<and> findUnique_shift st' ''S'' = Some shift'
        \<and> sh_status shift' = COVERED \<and> sh_assignedToId shift' = Some ''B''
        \<and> auditLogs st' = auditLogs ex_notified @ [entry]
        \<and> a_action entry = SHIFT_ACCEPTED \<and> a_sickCallId entry = ''id1''
        \<and> a_userId entry = ''B'')
   \<and> (\<exists>st' entry. assign ex_notified ex_env (ex_req ''M'' MANAGER ''org1'') ''id1'' ''B'' None
                      = (Inr ''Shift assigned successfully'', st')
          \<and> auditLogs st' = auditLogs ex_notified @ [entry]
          \<and> a_action entry = MANUAL_ASSIGNMENT
          \<and> a_userId entry = ''M'')"
proof -
  have h1: "findUnique_sickCall ex_notified ''id1'' = Some (ex_sickCall SC_NOTIFYING None None)"
    by code_simp
  have h2: "sc_status (ex_sickCall SC_NOTIFYING None None) \<noteq> SC_COVERED" by code_simp
  have h3: "parseResponse ''YES'' = Some ACCEPT" by code_simp
  have h4: "findUnique_shift ex_notified (sc_shiftId (ex_sickCall SC_NOTIFYING None None))
       = Some (ex_shift ''S'' 1704870000000 1704898800000 SICK_CALL ''A'' ''org1'')"
    by code_simp
  have s: "sc_shiftId (ex_sickCall SC_NOTIFYING None None) = ''S''" by code_simp
  have b: "ru_id (ex_req ''B'' STAFF ''org1'') = ''B''" by code_simp
  have m: "(ru_role (ex_req ''M'' MANAGER ''org1'') = MANAGER
            \<or> ru_role (ex_req ''M'' MANAGER ''org1'') = ADMIN)
           \<and> ru_id (ex_req ''M'' MANAGER ''org1'') \<noteq> []"
    by code_simp
  have mi: "ru_id (ex_req ''M'' MANAGER ''org1'') = ''M''" by code_simp
  note t = C4_accept_covers_shift [OF h1 h2 h3 h4, of ex_env "ex_req ''B'' STAFF ''org1''",
             unfolded s b]
  from t have t1: "\<exists>response st' sickCall' shift' entry.
          respond ex_notified ex_env (ex_req ''B'' STAFF ''org1'') ''id1'' ''YES''
            = (Inr (response, ''Shift assigned to you!''), st')
        \<and> r_responseType response = ACCEPT \<and> r_staffId response = ''B''
        \<and> shiftResponses st' = shiftResponses ex_notified @ [response]
        \<and> findUnique_sickCall st' ''id1'' = Some sickCall'
        \<and> sc_status sickCall' = SC_COVERED \<and> sc_coveredById sickCall' = Some ''B''
        \<and> findUnique_shift st' ''S'' = Some shift'
        \<and> sh_status shift' = COVERED \<and> sh_assignedToId shift' = Some ''B''
        \<and> auditLogs st' = auditLogs ex_notified @ [entry]
        \<and> a_action entry = SHIFT_ACCEPTED \<and> a_sickCallId entry = ''id1''
        \<and> a_userId entry = ''B''"
    by (rule conjunct1)
  note q = t [THEN conjunct2, THEN spec, THEN spec, THEN spec, THEN mp, OF m]
  have t2: "\<exists>st' entry. assign ex_notified ex_env (ex_req ''M'' MANAGER ''org1'') ''id1'' ''B'' None
                      = (Inr ''Shift assigned successfully'', st')
          \<and> auditLogs st' = auditLogs ex_notified @ [entry]
          \<and> a_action entry = MANUAL_ASSIGNMENT
          \<and> a_userId entry = ''M''"
    using q [unfolded mi] by blast
  from h1 h2 h3 h4 t1 t2 show ?thesis by (intro conjI)
qed

text \<open>
  C5. A reply on a sick call that is already covered is refused with status 400 and the
  store is left as it was: no response is recorded, nothing is assigned.
\<close>

theorem C5_respond_on_covered_fails:
  assumes "findUnique_sickCall st sickCallId = Some sickCall"
    and "sc_status sickCall = SC_COVERED"
  shows "respond st e u sickCallId responseText = (Inl (Reply 400 ''Shift already covered''), st)"
  using assms by (simp add: respond_def Let_def)

theorem C5_respond_on_covered_fails_witness:
  "findUnique_sickCall ex_covered ''id1''
     = Some (ex_sickCall SC_COVERED (Some ''B'') (Some 1704801600000))
   \<and> sc_status (ex_sickCall SC_COVERED (Some ''B'') (Some 1704801600000)) = SC_COVERED
   \<and> respond ex_covered ex_env (ex_req ''C'' STAFF ''org1'') ''id1'' ''YES''
       = (Inl (Reply 400 ''Shift already covered''), ex_covered)"
proof -
  have h1: "findUnique_sickCall ex_covered ''id1''
     = Some (ex_sickCall SC_COVERED (Some ''B'') (Some 1704801600000))"
    by code_simp
  have h2: "sc_status (ex_sickCall SC_COVERED (Some ''B'') (Some 1704801600000)) = SC_COVERED"
    by code_simp
  from C5_respond_on_covered_fails [OF h1 h2] h1 h2 show ?thesis by blast
qed


text \<open>
  C6, as the code has it. \<open>submit\<close> refuses a shift whose status is \<open>SICK_CALL\<close>, and a
  successful \<open>submit\<close> leaves the shift in that status: while the shift stays in it (until
  it is covered), every further sick call for the shift fails and leaves the store
  unchanged.
\<close>

theorem C6_no_second_submit_while_sick_call:
  "(\<forall>shift. findUnique_shift st shiftId = Some shift \<and> sh_status shift = SICK_CALL
       \<longrightarrow> (\<exists>r. submit st e u shiftId locationId reason dates = (Inl r, st)))
   \<and> (\<forall>sickCall st'. submit st e u shiftId locationId reason dates = (Inr sickCall, st')
       \<longrightarrow> (\<forall>e' u' locationId' reason' dates'.
              \<exists>r. submit st' e' u' shiftId locationId' reason' dates' = (Inl r, st')))"
proof (intro conjI allI impI)
  fix shift
  assume "findUnique_shift st shiftId = Some shift \<and> sh_status shift = SICK_CALL"
  then show "\<exists>r. submit st e u shiftId locationId reason dates = (Inl r, st)"
    by (simp add: submit_def Let_def)
next
  fix sickCall st' and e' :: env and u' :: reqUser and locationId' reason' dates'
  assume ok: "submit st e u shiftId locationId reason dates = (Inr sickCall, st')"
  from submit_Inr(1) [OF ok] obtain shift where sh: "findUnique_shift st shiftId = Some shift"
    by blast
  have "findUnique_shift st' shiftId = Some (shift \<lparr> sh_status := SICK_CALL \<rparr>)"
    using findUnique_shift_updated [OF submit_Inr(6) [OF ok]] sh by simp
  then show "\<exists>r. submit st' e' u' shiftId locationId' reason' dates' = (Inl r, st')"
    by (simp add: submit_def Let_def)
qed

theorem C6_no_second_submit_while_sick_call_witness:
  "findUnique_shift ex_submitted ''S''
     = Some (ex_shift ''S'' 1704870000000 1704898800000 SICK_CALL ''A'' ''org1'')
   \<and> sh_status (ex_shift ''S'' 1704870000000 1704898800000 SICK_CALL ''A'' ''org1'') = SICK_CALL
   \<and> (\<exists>r. submit ex_submitted ex_env (ex_req ''A'' STAFF ''org1'') ''S'' ''L1'' None None
             = (Inl r, ex_submitted))
   \<and> submit ex_store ex_env (ex_req ''A'' STAFF ''org1'') ''S'' ''L1'' None None
       = (Inr (ex_sickCall SC_PENDING None None), ex_submitted)
   \<and> (\<exists>r. submit ex_submitted ex_env (ex_req ''B'' STAFF ''org1'') ''S'' ''L1'' None None
             = (Inl r, ex_submitted))"
proof -
  have h1: "findUnique_shift ex_submitted ''S''
     = Some (ex_shift ''S'' 1704870000000 1704898800000 SICK_CALL ''A'' ''org1'')
     \<and> sh_status (ex_shift ''S'' 1704870000000 1704898800000 SICK_CALL ''A'' ''org1'') = SICK_CALL"
    by code_simp
  have h2: "submit ex_store ex_env (ex_req ''A'' STAFF ''org1'') ''S'' ''L1'' None None
       = (Inr (ex_sickCall SC_PENDING None None), ex_submitted)"
    unfolding ex_submitted_def by code_simp
  note t = C6_no_second_submit_while_sick_call
  have a: "\<exists>r. submit ex_submitted ex_env (ex_req ''A'' STAFF ''org1'') ''S'' ''L1'' None None
             = (Inl r, ex_submitted)"
    using t [THEN conjunct1, THEN spec, THEN mp, OF h1] .
  have b: "\<exists>r. submit ex_submitted ex_env (ex_req ''B'' STAFF ''org1'') ''S'' ''L1'' None None
             = (Inl r, ex_submitted)"
    using t [THEN conjunct2, THEN spec, THEN spec, THEN mp, OF h2] by blast
  from h1 a h2 b show ?thesis by (intro conjI) simp_all
qed

text \<open>
  The claim C6 as stated fails. After \<open>B\<close> has covered shift \<open>S\<close>, the sick call of \<open>A\<close>
  for \<open>S\<close> is covered, hence not cancelled; the shift is assigned to \<open>B\<close> with status
  covered, and a sick call of \<open>B\<close> for the same shift is accepted: two sick calls of \<open>S\<close>,
  neither cancelled.
\<close>

theorem C6_second_sick_call_counterexample:
  "map (\<lambda>c. (sc_id c, sc_shiftId c, sc_status c)) (sickCalls ex_covered)
     = [(''SC0'', ''S0'', SC_COVERED), (''id1'', ''S'', SC_COVERED)]
   \<and> map_sum (\<lambda>r. r) (\<lambda>c. (sc_id c, sc_shiftId c, sc_status c))
       (fst (submit ex_covered ex_env (ex_req ''B'' STAFF ''org1'') ''S'' ''L1'' None None))
     = Inr (''id2'', ''S'', SC_PENDING)
   \<and> map (\<lambda>c. (sc_id c, sc_shiftId c, sc_status c))
       (sickCalls (snd (submit ex_covered ex_env (ex_req ''B'' STAFF ''org1'') ''S'' ''L1''
                          None None)))
     = [(''SC0'', ''S0'', SC_COVERED), (''id1'', ''S'', SC_COVERED),
        (''id2'', ''S'', SC_PENDING)]"
  by code_simp

text \<open>
  C10. \<open>respond\<close> checks neither that the caller was ranked or notified nor that the
  caller belongs to the organisation of the sick call: for any caller, any store and any
  sick call that is not covered (its shift row existing), an accept word records the
  caller's response, assigns the shift to the caller and makes the caller the covering
  staff.
\<close>

theorem C10_any_caller_can_accept:
  assumes "findUnique_sickCall st sickCallId = Some sickCall"
    and "sc_status sickCall \<noteq> SC_COVERED"
    and "parseResponse responseText = Some ACCEPT"
    and "findUnique_shift st (sc_shiftId sickCall) = Some shift"
  shows "\<exists>response st'.
           respond st e u sickCallId responseText
             = (Inr (response, ''Shift assigned to you!''), st')
         \<and> response \<in> set (shiftResponses st')
         \<and> r_staffId response = ru_id u \<and> r_sickCallId response = sickCallId
         \<and> map_option sh_assignedToId (findUnique_shift st' (sc_shiftId sickCall))
             = Some (Some (ru_id u))
         \<and> map_option sc_coveredById (findUnique_sickCall st' sickCallId)
             = Some (Some (ru_id u))"
proof -
  from respond_accept [OF assms, of e u]
  obtain response st' where
    r: "respond st e u sickCallId responseText = (Inr (response, ''Shift assigned to you!''), st')"
    and resp: "r_staffId response = ru_id u" "r_sickCallId response = sickCallId"
      "shiftResponses st' = shiftResponses st @ [response]"
    and scs: "sickCalls st' =
         map (\<lambda>c. if sc_id c = sickCallId
                   then c \<lparr> sc_status := SC_COVERED, sc_coveredById := Some (ru_id u),
                            sc_coveredAt := Some (clock e) \<rparr>
                   else c) (sickCalls st)"
    and shs: "shifts st' =
         map (\<lambda>s. if sh_id s = sc_shiftId sickCall
                   then s \<lparr> sh_status := COVERED, sh_assignedToId := Some (ru_id u) \<rparr>
                   else s) (shifts st)"
    by auto
  have "map_option sc_coveredById (findUnique_sickCall st' sickCallId) = Some (Some (ru_id u))"
    using findUnique_sickCall_updated [OF scs] assms(1) by simp
  moreover have "map_option sh_assignedToId (findUnique_shift st' (sc_shiftId sickCall))
                   = Some (Some (ru_id u))"
    using findUnique_shift_updated [OF shs] assms(4) by simp
  ultimately show ?thesis using r resp by simp
qed

theorem C10_any_caller_can_accept_witness:
  "findUnique_sickCall ex_notified ''id1'' = Some (ex_sickCall SC_NOTIFYING None None)
   \<and> sc_status (ex_sickCall SC_NOTIFYING None None) \<noteq> SC_COVERED
   \<and> parseResponse '' ok '' = Some ACCEPT
   \<and> findUnique_shift ex_notified (sc_shiftId (ex_sickCall SC_NOTIFYING None None))
       = Some (ex_shift ''S'' 1704870000000 1704898800000 SICK_CALL ''A'' ''org1'')
   \<and> filter (\<lambda>n. n_recipientId n = ''X'') (notifications ex_notified) = []
   \<and> ru_organizationId (ex_req ''X'' STAFF ''org2'')
       \<noteq> sc_organizationId (ex_sickCall SC_NOTIFYING None None)
   \<and> (\<exists>response st'.
           respond ex_notified ex_env (ex_req ''X'' STAFF ''org2'') ''id1'' '' ok ''
             = (Inr (response, ''Shift assigned to you!''), st')
         \<and> response \<in> set (shiftResponses st')
         \<and> r_staffId response = ''X'' \<and> r_sickCallId response = ''id1''
         \<and> map_option sh_assignedToId (findUnique_shift st' ''S'') = Some (Some ''X'')
         \<and> map_option sc_coveredById (findUnique_sickCall st' ''id1'') = Some (Some ''X''))"
proof -
  have h1: "findUnique_sickCall ex_notified ''id1'' = Some (ex_sickCall SC_NOTIFYING None None)"
    by code_simp
  have h2: "sc_status (ex_sickCall SC_NOTIFYING None None) \<noteq> SC_COVERED" by code_simp
  have h3: "parseResponse '' ok '' = Some ACCEPT" by code_simp
  have h4: "findUnique_shift ex_notified (sc_shiftId (ex_sickCall SC_NOTIFYING None None))
       = Some (ex_shift ''S'' 1704870000000 1704898800000 SICK_CALL ''A'' ''org1'')"
    by code_simp
  have n: "filter (\<lambda>n. n_recipientId n = ''X'') (notifications ex_notified) = []"
    by code_simp
  have o: "ru_organizationId (ex_req ''X'' STAFF ''org2'')
       \<noteq> sc_organizationId (ex_sickCall SC_NOTIFYING None None)"
    by code_simp
  have s: "sc_shiftId (ex_sickCall SC_NOTIFYING None None) = ''S''" by code_simp
  have x: "ru_id (ex_req ''X'' STAFF ''org2'') = ''X''" by code_simp
  note t = C10_any_caller_can_accept [OF h1 h2 h3 h4, of ex_env "ex_req ''X'' STAFF ''org2''",
             unfolded s x]
  from h1 h2 h3 h4 n o t show ?thesis by (intro conjI)
qed


text \<open>
  C8. For a recipient that exists and has a phone number, \<open>sendSMS\<close> first adds a
  notification row with status \<open>PENDING\<close>; the transport runs on the store that holds
  this row; afterwards the row is \<open>SENT\<close>, with the time and the external id of the
  transport (the mock id when Twilio is not configured), and its id is returned, or, when
  the transport throws, the row is \<open>FAILED\<close> and \<open>sendSMS\<close> returns null. In both cases
  \<open>sendSMS\<close> returns to its caller.
\<close>

theorem C8_pending_then_sent_or_failed:
  assumes "findUnique_user st recipientId = Some recipient"
    and "u_phone recipient = Some phone"
    and "phone \<noteq> []"
  shows "\<exists>n st1.
           sendSMS_persist st e recipientId sickCallId message = Some (recipient, phone, n, st1)
         \<and> notifications st1 = notifications st @ [n]
         \<and> n_status n = N_PENDING \<and> n_recipientId n = recipientId
         \<and> n_sickCallId n = sickCallId \<and> n_message n = message
         \<and> sendSMS st e recipientId sickCallId message
             = sendSMS_transport st1 e recipient phone n
         \<and> length (notifications (snd (sendSMS st e recipientId sickCallId message)))
             = Suc (length (notifications st))
         \<and> (twilio e = None \<longrightarrow>
               fst (sendSMS st e recipientId sickCallId message) = Some (n_id n)
             \<and> last (notifications (snd (sendSMS st e recipientId sickCallId message)))
                 = n \<lparr> n_status := N_SENT, n_sentAt := Some (clock e),
                        n_externalId := Some (''mock-'' @ toString (clock e)) \<rparr>)
         \<and> (\<forall>create sid. twilio e = Some create \<and> create message phone = Some sid \<longrightarrow>
               fst (sendSMS st e recipientId sickCallId message) = Some (n_id n)
             \<and> last (notifications (snd (sendSMS st e recipientId sickCallId message)))
                 = n \<lparr> n_status := N_SENT, n_sentAt := Some (clock e),
                        n_externalId := Some sid \<rparr>)
         \<and> (\<forall>create. twilio e = Some create \<and> create message phone = None \<longrightarrow>
               fst (sendSMS st e recipientId sickCallId message) = None
             \<and> last (notifications (snd (sendSMS st e recipientId sickCallId message)))
                 = n \<lparr> n_status := N_FAILED \<rparr>)"
proof -
  define n where "n = \<lparr> n_id = freshId e (length (notifications st)),
      n_sickCallId = sickCallId, n_recipientId = recipientId, n_type = SMS,
      n_status = N_PENDING, n_message = message, n_sentAt = None, n_externalId = None \<rparr>"
  define st1 where "st1 = st \<lparr> notifications := notifications st @ [n] \<rparr>"
  have p: "sendSMS_persist st e recipientId sickCallId message = Some (recipient, phone, n, st1)"
    using assms by (simp add: sendSMS_persist_def Let_def n_def st1_def)
  have s: "sendSMS st e recipientId sickCallId message = sendSMS_transport st1 e recipient phone n"
    by (simp add: sendSMS_def p)
  have f: "n_status n = N_PENDING" "n_recipientId n = recipientId" "n_sickCallId n = sickCallId"
    "n_message n = message" "notifications st1 = notifications st @ [n]"
    by (simp_all add: n_def st1_def)
  have len: "length (notifications (snd (sendSMS_transport st1 e recipient phone n)))
               = Suc (length (notifications st))"
    by (simp add: sendSMS_transport_def markSent_def failPending_def f split: option.splits)
  have mock: "twilio e = None \<Longrightarrow>
      fst (sendSMS_transport st1 e recipient phone n) = Some (n_id n)
      \<and> last (notifications (snd (sendSMS_transport st1 e recipient phone n)))
          = n \<lparr> n_status := N_SENT, n_sentAt := Some (clock e),
                 n_externalId := Some (''mock-'' @ toString (clock e)) \<rparr>"
    by (simp add: sendSMS_transport_def markSent_def f)
  have sent: "twilio e = Some create \<and> create message phone = Some sid \<Longrightarrow>
      fst (sendSMS_transport st1 e recipient phone n) = Some (n_id n)
      \<and> last (notifications (snd (sendSMS_transport st1 e recipient phone n)))
          = n \<lparr> n_status := N_SENT, n_sentAt := Some (clock e), n_externalId := Some sid \<rparr>"
    for create sid
    by (simp add: sendSMS_transport_def markSent_def f)
  have failed: "twilio e = Some create \<and> create message phone = None \<Longrightarrow>
      fst (sendSMS_transport st1 e recipient phone n) = None
      \<and> last (notifications (snd (sendSMS_transport st1 e recipient phone n)))
          = n \<lparr> n_status := N_FAILED \<rparr>"
    for create
    by (simp add: sendSMS_transport_def failPending_def f)
  have sent': "\<forall>create sid. twilio e = Some create \<and> create message phone = Some sid \<longrightarrow>
      fst (sendSMS_transport st1 e recipient phone n) = Some (n_id n)
      \<and> last (notifications (snd (sendSMS_transport st1 e recipient phone n)))
          = n \<lparr> n_status := N_SENT, n_sentAt := Some (clock e), n_externalId := Some sid \<rparr>"
    using sent by blast
  have failed': "\<forall>create. twilio e = Some create \<and> create message phone = None \<longrightarrow>
      fst (sendSMS_transport st1 e recipient phone n) = None
      \<and> last (notifications (snd (sendSMS_transport st1 e recipient phone n)))
          = n \<lparr> n_status := N_FAILED \<rparr>"
    using failed by blast
  show ?thesis
    unfolding s
    by (rule exI [of _ n], rule exI [of _ st1], intro conjI)
       (use p f len mock sent' failed' in \<open>blast+\<close>)
qed


theorem C8_pending_then_sent_or_failed_witness:
  "findUnique_user ex_store ''B'' = Some (ex_user ''B'' STAFF (Some 8) ''org1'')
   \<and> u_phone (ex_user ''B'' STAFF (Some 8) ''org1'') = Some ''+1-604-555-0201''
   \<and> ''+1-604-555-0201'' \<noteq> []
   \<and> (\<exists>n. n_status n = N_PENDING
          \<and> fst (sendSMS ex_store ex_env_failing ''B'' ''id1''
                   (ShiftAvailable ''L1'' 1704844800000 1704870000000 1704898800000)) = None
          \<and> last (notifications (snd (sendSMS ex_store ex_env_failing ''B'' ''id1''
                   (ShiftAvailable ''L1'' 1704844800000 1704870000000 1704898800000))))
              = n \<lparr> n_status := N_FAILED \<rparr>)
   \<and> (\<exists>n. n_status n = N_PENDING
          \<and> fst (sendSMS ex_store ex_env ''B'' ''id1''
                   (ShiftAvailable ''L1'' 1704844800000 1704870000000 1704898800000))
              = Some (n_id n)
          \<and> last (notifications (snd (sendSMS ex_store ex_env ''B'' ''id1''
                   (ShiftAvailable ''L1'' 1704844800000 1704870000000 1704898800000))))
              = n \<lparr> n_status := N_SENT, n_sentAt := Some (clock ex_env),
                     n_externalId := Some (''mock-'' @ toString (clock ex_env)) \<rparr>)"
proof -
  have h1: "findUnique_user ex_store ''B'' = Some (ex_user ''B'' STAFF (Some 8) ''org1'')"
    by code_simp
  have h2: "u_phone (ex_user ''B'' STAFF (Some 8) ''org1'') = Some ''+1-604-555-0201''"
    by code_simp
  have h3: "''+1-604-555-0201'' \<noteq> []" by simp
  have tw: "twilio ex_env_failing = Some (\<lambda>body to. None)
            \<and> (\<lambda>body to. None)
                 (ShiftAvailable ''L1'' 1704844800000 1704870000000 1704898800000)
                 ''+1-604-555-0201'' = None"
    by (simp add: ex_env_failing_def)
  have mock: "twilio ex_env = None" by (simp add: ex_env_def)
  from C8_pending_then_sent_or_failed [OF h1 h2 h3, of ex_env_failing "''id1''"
         "ShiftAvailable ''L1'' 1704844800000 1704870000000 1704898800000"] tw
  have a: "\<exists>n. n_status n = N_PENDING
          \<and> fst (sendSMS ex_store ex_env_failing ''B'' ''id1''
                   (ShiftAvailable ''L1'' 1704844800000 1704870000000 1704898800000)) = None
          \<and> last (notifications (snd (sendSMS ex_store ex_env_failing ''B'' ''id1''
                   (ShiftAvailable ''L1'' 1704844800000 1704870000000 1704898800000))))
              = n \<lparr> n_status := N_FAILED \<rparr>"
    by blast
  from C8_pending_then_sent_or_failed [OF h1 h2 h3, of ex_env "''id1''"
         "ShiftAvailable ''L1'' 1704844800000 1704870000000 1704898800000"] mock
  have b: "\<exists>n. n_status n = N_PENDING
          \<and> fst (sendSMS ex_store ex_env ''B'' ''id1''
                   (ShiftAvailable ''L1'' 1704844800000 1704870000000 1704898800000))
              = Some (n_id n)
          \<and> last (notifications (snd (sendSMS ex_store ex_env ''B'' ''id1''
                   (ShiftAvailable ''L1'' 1704844800000 1704870000000 1704898800000))))
              = n \<lparr> n_status := N_SENT, n_sentAt := Some (clock ex_env),
                     n_externalId := Some (''mock-'' @ toString (clock ex_env)) \<rparr>"
    by blast
  from h1 h2 h3 a b show ?thesis by (intro conjI)
qed

section \<open>Availability\<close>


lemma working_not_available:
  assumes sh: "findUnique_shift st sid = Some shift"
    and w: "spec_workingAnotherShift st org shift staffId"
    and out: "findCandidates st now sid org loc rules = Inr out"
    and c: "c \<in> set out" "userId c = staffId"
  shows "\<not> isAvailable c" and "\<not> prioritizeAvailability (mergeRules DEFAULT_RULES rules)"
proof -
  from out c(1) obtain shift' staff c0 k where
    sh': "findUnique_shift st sid = Some shift'"
    and c0: "staffCandidate st now shift' sid org (mergeRules DEFAULT_RULES rules) staff = Some c0"
    and ck: "c = c0 \<lparr> rank := k \<rparr>"
    by (rule findCandidates_member)
  from sh sh' have eq: "shift' = shift" by simp
  have id: "u_id staff = staffId"
    using staffCandidate_fields(1) [OF sh' c0] ck c(2) by simp
  show "\<not> isAvailable c"
    using staffCandidate_fields(3) [OF sh' c0] ck w id eq by simp
  show "\<not> prioritizeAvailability (mergeRules DEFAULT_RULES rules)"
    using staffCandidate_None [OF sh', of now org "mergeRules DEFAULT_RULES rules" staff]
      c0 w id eq by auto
qed

lemma working_not_in_top:
  assumes sh: "findUnique_shift st sid = Some shift"
    and w: "spec_workingAnotherShift st org shift staffId"
    and chosen: "getTopCandidates st now sid org loc count rules = Inr chosen"
  shows "staffId \<notin> userId ` set chosen"
proof
  assume "staffId \<in> userId ` set chosen"
  then obtain c where c: "c \<in> set chosen" "userId c = staffId" by auto
  from chosen obtain out where out: "findCandidates st now sid org loc rules = Inr out"
    and t: "chosen = take count (filter isAvailable out)"
    by (auto simp: getTopCandidates_def Let_def split: sum.splits)
  from c(1) t have "c \<in> set (filter isAvailable out)" by (auto dest: in_set_takeD)
  then have "c \<in> set out" "isAvailable c" by auto
  with working_not_available(1) [OF sh w out _ c(2)] show False by blast
qed


lemma coverage_recipients:
  assumes "findUnique_sickCall st i = Some sickCall"
  shows "\<exists>rs. map n_recipientId (notifications (snd (startShiftCoverageProcess st e i)))
            = map n_recipientId (notifications st) @ rs
          \<and> (\<forall>r \<in> set rs. \<exists>chosen.
                getTopCandidates (update_sickCall st i (\<lambda>c. c \<lparr> sc_status := SC_NOTIFYING \<rparr>))
                  (clock e) (sc_shiftId sickCall) (sc_organizationId sickCall)
                  (sc_locationId sickCall) 5 noRules = Inr chosen
                \<and> r \<in> userId ` set chosen)"
proof -
  let ?st1 = "update_sickCall st i (\<lambda>c. c \<lparr> sc_status := SC_NOTIFYING \<rparr>)"
  let ?chosen = "getTopCandidates ?st1 (clock e) (sc_shiftId sickCall) (sc_organizationId sickCall)
                (sc_locationId sickCall) 5 noRules"
  show ?thesis
  proof (cases ?chosen)
    case (Inl err)
    then have "notifications (snd (startShiftCoverageProcess st e i)) = notifications st"
      using assms by (simp add: startShiftCoverageProcess_def Let_def update_sickCall_fields)
    then show ?thesis by simp
  next
    case (Inr chosen)
    show ?thesis
    proof (cases chosen)
      case Nil
      with Inr have "notifications (snd (startShiftCoverageProcess st e i)) = notifications st"
        using assms by (simp add: startShiftCoverageProcess_def Let_def update_sickCall_fields)
      then show ?thesis by simp
    next
      case (Cons first others)
      show ?thesis
      proof (cases "findUnique_shift st (sc_shiftId sickCall)")
        case None
        with Inr Cons
        have "notifications (snd (startShiftCoverageProcess st e i)) = notifications st"
          using assms by (simp add: startShiftCoverageProcess_def Let_def update_sickCall_fields)
        then show ?thesis by simp
      next
        case (Some shift)
        let ?m = "ShiftAvailable (sh_locationId shift) (sh_date shift)
                    (sh_startTime shift) (sh_endTime shift)"
        from Inr Cons Some assms
        have "notifications (snd (startShiftCoverageProcess st e i))
                = notifications (snd (sendSMS ?st1 e (userId first) i ?m))"
          by (simp add: startShiftCoverageProcess_def Let_def split: prod.splits)
        moreover from sendSMS_recipients [of ?st1 e "userId first" i ?m]
        obtain rs where "map n_recipientId (notifications (snd (sendSMS ?st1 e (userId first) i ?m)))
              = map n_recipientId (notifications st) @ rs" and "set rs \<subseteq> {userId first}"
          by (auto simp: update_sickCall_fields)
        ultimately show ?thesis using Inr Cons by auto
      qed
    qed
  qed
qed


lemma findUnique_shift_cong: "shifts st' = shifts st \<Longrightarrow> findUnique_shift st' = findUnique_shift st"
  by (auto simp: findUnique_shift_def fun_eq_iff)

lemma spec_workingAnotherShift_cong:
  "shifts st' = shifts st \<Longrightarrow> spec_workingAnotherShift st' = spec_workingAnotherShift st"
  by (auto simp: spec_workingAnotherShift_def fun_eq_iff)



section \<open>Claims about availability\<close>

text \<open>
  C3, as the code has it. A staff member who is assigned another scheduled or covered
  shift of the ranking organisation whose date field equals the date field of the target
  shift is left out of the ranking when the availability rule is on; under any rules a
  candidate row for them has \<open>isAvailable = False\<close>; they are never among the top
  candidates; and the coverage process of a sick call for that shift sends them no
  notification.
\<close>

theorem C3_working_staff_excluded:
  assumes "findUnique_shift st shiftId = Some shift"
    and "spec_workingAnotherShift st organizationId shift staffId"
  shows "(\<forall>rules out.
            prioritizeAvailability (mergeRules DEFAULT_RULES rules)
            \<and> findCandidates st now shiftId organizationId locationId rules = Inr out
            \<longrightarrow> staffId \<notin> userId ` set out)
       \<and> (\<forall>rules out c.
            findCandidates st now shiftId organizationId locationId rules = Inr out
            \<and> c \<in> set out \<and> userId c = staffId
            \<longrightarrow> \<not> isAvailable c)
       \<and> (\<forall>rules count chosen.
            getTopCandidates st now shiftId organizationId locationId count rules = Inr chosen
            \<longrightarrow> staffId \<notin> userId ` set chosen)
       \<and> (\<forall>e sickCallId sickCall.
            findUnique_sickCall st sickCallId = Some sickCall
            \<and> sc_shiftId sickCall = shiftId \<and> sc_organizationId sickCall = organizationId
            \<longrightarrow> (\<exists>rs. map n_recipientId
                         (notifications (snd (startShiftCoverageProcess st e sickCallId)))
                       = map n_recipientId (notifications st) @ rs
                     \<and> staffId \<notin> set rs))"
proof (intro conjI allI impI)
  fix rules out
  assume a: "prioritizeAvailability (mergeRules DEFAULT_RULES rules)
             \<and> findCandidates st now shiftId organizationId locationId rules = Inr out"
  show "staffId \<notin> userId ` set out"
  proof
    assume "staffId \<in> userId ` set out"
    then obtain c where "c \<in> set out" "userId c = staffId" by auto
    from working_not_available(2) [OF assms _ this] a show False by blast
  qed
next
  fix rules out c
  assume "findCandidates st now shiftId organizationId locationId rules = Inr out
          \<and> c \<in> set out \<and> userId c = staffId"
  then show "\<not> isAvailable c" using working_not_available(1) [OF assms] by blast
next
  fix rules count chosen
  assume "getTopCandidates st now shiftId organizationId locationId count rules = Inr chosen"
  then show "staffId \<notin> userId ` set chosen" by (rule working_not_in_top [OF assms])
next
  fix e sickCallId sickCall
  assume a: "findUnique_sickCall st sickCallId = Some sickCall
             \<and> sc_shiftId sickCall = shiftId \<and> sc_organizationId sickCall = organizationId"
  let ?st1 = "update_sickCall st sickCallId (\<lambda>c. c \<lparr> sc_status := SC_NOTIFYING \<rparr>)"
  have sh1: "findUnique_shift ?st1 shiftId = Some shift"
    using assms(1) by (simp add: findUnique_shift_cong [of ?st1 st] update_sickCall_fields)
  have w1: "spec_workingAnotherShift ?st1 organizationId shift staffId"
    using assms(2)
    by (simp add: spec_workingAnotherShift_cong [of ?st1 st] update_sickCall_fields)
  from a coverage_recipients [of st sickCallId sickCall e]
  obtain rs where rs: "map n_recipientId
                         (notifications (snd (startShiftCoverageProcess st e sickCallId)))
                       = map n_recipientId (notifications st) @ rs"
    and chosen: "\<forall>r \<in> set rs. \<exists>chosen.
                getTopCandidates ?st1 (clock e) shiftId organizationId
                  (sc_locationId sickCall) 5 noRules = Inr chosen
                \<and> r \<in> userId ` set chosen"
    by auto
  have "staffId \<notin> set rs"
  proof
    assume "staffId \<in> set rs"
    with chosen obtain chosen where
      "getTopCandidates ?st1 (clock e) shiftId organizationId
         (sc_locationId sickCall) 5 noRules = Inr chosen"
      and "staffId \<in> userId ` set chosen"
      by blast
    with working_not_in_top [OF sh1 w1] show False by blast
  qed
  with rs show "\<exists>rs. map n_recipientId
                         (notifications (snd (startShiftCoverageProcess st e sickCallId)))
                       = map n_recipientId (notifications st) @ rs
                     \<and> staffId \<notin> set rs"
    by blast
qed

theorem C3_working_staff_excluded_witness:
  "findUnique_shift ex_submitted ''S''
     = Some (ex_shift ''S'' 1704870000000 1704898800000 SICK_CALL ''A'' ''org1'')
   \<and> spec_workingAnotherShift ex_submitted ''org1''
       (ex_shift ''S'' 1704870000000 1704898800000 SICK_CALL ''A'' ''org1'') ''C''
   \<and> prioritizeAvailability (mergeRules DEFAULT_RULES noRules)
   \<and> findCandidates ex_submitted 1704801600000 ''S'' ''org1'' ''L1'' noRules = Inr ex_ranked
   \<and> ''C'' \<notin> userId ` set ex_ranked
   \<and> getTopCandidates ex_submitted 1704801600000 ''S'' ''org1'' ''L1'' 5 noRules
       = Inr ex_ranked
   \<and> findUnique_sickCall ex_submitted ''id1'' = Some (ex_sickCall SC_PENDING None None)
   \<and> (\<exists>rs. map n_recipientId
              (notifications (snd (startShiftCoverageProcess ex_submitted ex_env ''id1'')))
            = map n_recipientId (notifications ex_submitted) @ rs
          \<and> ''C'' \<notin> set rs)"
proof -
  have h1: "findUnique_shift ex_submitted ''S''
     = Some (ex_shift ''S'' 1704870000000 1704898800000 SICK_CALL ''A'' ''org1'')"
    by code_simp
  have h2: "spec_workingAnotherShift ex_submitted ''org1''
       (ex_shift ''S'' 1704870000000 1704898800000 SICK_CALL ''A'' ''org1'') ''C''"
    by code_simp
  have p: "prioritizeAvailability (mergeRules DEFAULT_RULES noRules)" by code_simp
  have r: "findCandidates ex_submitted 1704801600000 ''S'' ''org1'' ''L1'' noRules
             = Inr ex_ranked"
    by code_simp
  have g: "getTopCandidates ex_submitted 1704801600000 ''S'' ''org1'' ''L1'' 5 noRules
             = Inr ex_ranked"
    by code_simp
  have c: "findUnique_sickCall ex_submitted ''id1'' = Some (ex_sickCall SC_PENDING None None)
           \<and> sc_shiftId (ex_sickCall SC_PENDING None None) = ''S''
           \<and> sc_organizationId (ex_sickCall SC_PENDING None None) = ''org1''"
    by code_simp
  note t = C3_working_staff_excluded [OF h1 h2, of 1704801600000 "''L1''"]
  have a: "''C'' \<notin> userId ` set ex_ranked"
    by (rule t [THEN conjunct1, THEN spec, THEN spec, THEN mp, OF conjI [OF p r]])
  have b: "\<exists>rs. map n_recipientId
              (notifications (snd (startShiftCoverageProcess ex_submitted ex_env ''id1'')))
            = map n_recipientId (notifications ex_submitted) @ rs
          \<and> ''C'' \<notin> set rs"
    by (rule t [THEN conjunct2, THEN conjunct2, THEN conjunct2,
                THEN spec, THEN spec, THEN spec, THEN mp, OF c])
  from h1 h2 p r a g c [THEN conjunct1] b show ?thesis by (intro conjI)
qed

text \<open>
  The claim C3 as stated fails. \<open>D\<close> is working another scheduled shift on the calendar
  day of the target shift \<open>S\<close>, with a date field one millisecond later; \<open>D\<close> is the
  first of the top candidates, with \<open>isAvailable = True\<close>, and the coverage process of
  the sick call for \<open>S\<close> sends the offer to \<open>D\<close>.
\<close>

theorem C3_same_day_shift_counterexample:
  "findUnique_shift ex_sameday ''S''
     = Some (ex_shift ''S'' 1704870000000 1704898800000 SICK_CALL ''A'' ''org1'')
   \<and> spec_workingOnTargetDate ex_sameday
       (ex_shift ''S'' 1704870000000 1704898800000 SICK_CALL ''A'' ''org1'') ''D''
   \<and> map_sum (\<lambda>e. e) (map (\<lambda>c. (userId c, rank c, isAvailable c)))
       (getTopCandidates ex_sameday 1704801600000 ''S'' ''org1'' ''L1'' 5 noRules)
     = Inr [(''D'', 1, True), (''A'', 2, True), (''B'', 3, True)]
   \<and> map n_recipientId (notifications ex_sameday) = []
   \<and> map (\<lambda>n. (n_recipientId n, n_sickCallId n, n_status n))
       (notifications (snd (startShiftCoverageProcess ex_sameday ex_env ''id1'')))
     = [(''D'', ''id1'', N_SENT)]"
  by code_simp



end
